theory Spec2Isabelle
  imports Complex_Main "HOL-Library.Sublist" "HOL-Library.Multiset"
begin

section \<open>Python values, exceptions and library boundaries\<close>

text \<open>
  Exceptions of the Python program are values.  A computation that may raise
  returns \<open>exn + 'a\<close>, with \<open>Inl\<close> for the raised exception.  The constructors
  are the exception classes that the handlers of the program tell apart;
  \<open>Exception\<close> with its message stands for every other subclass of
  \<open>Exception\<close> (service, network and file errors, the simulated failures).
  \<open>RetryError\<close> is the wrapper that the retry decorator of
  \<open>generate_content_async\<close> raises; it carries the last exception of the
  wrapped call.  \<open>RecursionError\<close> is what \<open>json.loads\<close> raises on text
  that is nested too deeply.
\<close>

datatype exn =
    JSONDecodeError
  | KeyError string
  | TypeError
  | AttributeError
  | ValueError string
  | ValidationError
  | RecursionError
  | RetryError exn
  | Exception string

text \<open>
  \<open>str(e)\<close>, as \<open>run_evaluation\<close> stores it.  Messages that a library
  composes are shortened to the class name; \<open>str(KeyError(k))\<close> is the
  quoted key.
\<close>

fun py_str :: "exn \<Rightarrow> string" where
  "py_str JSONDecodeError = ''JSONDecodeError''"
| "py_str (KeyError k) = [CHR 0x27] @ k @ [CHR 0x27]"
| "py_str TypeError = ''TypeError''"
| "py_str AttributeError = ''AttributeError''"
| "py_str (ValueError m) = m"
| "py_str ValidationError = ''ValidationError''"
| "py_str RecursionError = ''RecursionError''"
| "py_str (RetryError e) = ''RetryError''"
| "py_str (Exception m) = m"

text \<open>The values \<open>json.loads\<close> produces.\<close>

datatype json =
    JNull
  | JBool bool
  | JInt int
  | JFloat real
  | JStr string
  | JArr "json list"
  | JObj "(string \<times> json) list"

text \<open>
  Library code whose results the program only consumes is a parameter:
  \<open>loads\<close> is \<open>json.loads\<close>, which raises \<open>JSONDecodeError\<close> on
  text that is not JSON, and \<open>RecursionError\<close> when the nesting of the
  text exceeds the recursion limit; \<open>lax_float\<close>, \<open>lax_str\<close> and \<open>lax_int\<close> are
  the coercions pydantic applies to a value that is not already of the
  field's type (\<open>None\<close> when it rejects the value).
\<close>

record pylib =
  loads :: "string \<Rightarrow> exn + json"
  lax_float :: "json \<Rightarrow> real option"
  lax_str :: "json \<Rightarrow> string option"
  lax_int :: "json \<Rightarrow> int option"

subsection \<open>Strings\<close>

text \<open>
  Strings are lists of characters, and a character is a code point below
  256.  \<open>str.strip()\<close> and \<open>str.split()\<close> treat as white space the code
  points for which \<open>str.isspace()\<close> holds: 9 to 13, 28 to 32, 133 (U+0085)
  and 160 (U+00A0).  \<open>str.lower()\<close> maps \<open>A\<close> to \<open>Z\<close> (65 to 90) and
  the capital letters U+00C0 to U+00DE (192 to 222, without the
  multiplication sign 215) to the code point 32 higher.
\<close>

definition is_space :: "char \<Rightarrow> bool" where
  "is_space c =
     (let n = (of_char c :: nat)
      in (9 \<le> n \<and> n \<le> 13) \<or> (28 \<le> n \<and> n \<le> 32) \<or> n = 133 \<or> n = 160)"

definition strip :: "string \<Rightarrow> string" where
  "strip s = rev (dropWhile is_space (rev (dropWhile is_space s)))"

definition lower_char :: "char \<Rightarrow> char" where
  "lower_char c =
     (let n = (of_char c :: nat)
      in if (65 \<le> n \<and> n \<le> 90) \<or> (192 \<le> n \<and> n \<le> 222 \<and> n \<noteq> 215)
         then char_of (n + 32) else c)"

definition lower :: "string \<Rightarrow> string" where
  "lower s = map lower_char s"

text \<open>\<open>s.startswith(p)\<close> is \<open>prefix p s\<close>; \<open>s[a:-3]\<close> is the slice below.\<close>

definition slice_from_to_minus3 :: "nat \<Rightarrow> string \<Rightarrow> string" where
  "slice_from_to_minus3 a s = drop a (take (length s - 3) s)"

section \<open>AI gateway: \<open>gemini_service.py\<close>\<close>

record ExtractedCVData =
  skills :: "string list"
  experiences :: "string list"
  projects :: "string list"
  education :: "string list"
  years_of_experience :: "int option"
  achievements :: "string list"

record CVEvaluation =
  technical_skills_match :: real
  experience_level :: real
  relevant_achievements :: real
  cultural_fit :: real
  cv_overall_score :: real

record ProjectEvaluation =
  correctness :: real
  code_quality :: real
  resilience :: real
  documentation :: real
  creativity :: real
  overall_score :: real

text \<open>
  A prompt is the template that built it together with the values the
  f-string interpolates; the fixed wording of the templates is left out.
\<close>

datatype prompt =
    RawPrompt string
  | CVStructurePrompt string
  | CVMatchPrompt string string ExtractedCVData
  | ProjectInitialPrompt string string
  | ProjectRefinePrompt json string
  | SummaryPrompt json json json json

text \<open>
  The generation service is an oracle: \<open>svc k p t\<close> is what the \<open>k\<close>-th call
  of \<open>self.model.generate_content\<close> (counted from 0 over the whole run) does
  for prompt \<open>p\<close> at temperature \<open>t\<close>: it raises, or it returns the response
  text.  A computation that calls the service threads the number of calls
  made so far.
\<close>

type_synonym service = "nat \<Rightarrow> prompt \<Rightarrow> real \<Rightarrow> exn + string"

type_synonym 'a io = "nat \<Rightarrow> (exn + 'a) \<times> nat"

definition return_io :: "'a \<Rightarrow> 'a io" where
  "return_io a = (\<lambda>n. (Inr a, n))"

definition bind_io :: "'a io \<Rightarrow> ('a \<Rightarrow> 'b io) \<Rightarrow> 'b io" where
  "bind_io m f = (\<lambda>n. case m n of (Inl e, n') \<Rightarrow> (Inl e, n') | (Inr a, n') \<Rightarrow> f a n')"

definition lift_io :: "exn + 'a \<Rightarrow> 'a io" where
  "lift_io r = (\<lambda>n. (r, n))"

text \<open>
  \<open>try: m except (classes): h\<close>: the handler runs when \<open>m\<close> raises an
  exception that \<open>catches\<close> accepts.
\<close>

definition try_except :: "'a io \<Rightarrow> (exn \<Rightarrow> bool) \<Rightarrow> (exn \<Rightarrow> 'a io) \<Rightarrow> 'a io" where
  "try_except m catches h =
     (\<lambda>n. case m n of
            (Inl e, n') \<Rightarrow> if catches e then h e n' else (Inl e, n')
          | (Inr a, n') \<Rightarrow> (Inr a, n'))"

text \<open>
  \<open>generate_content_async\<close> under
  \<open>@retry(stop=stop_after_attempt(3), wait=wait_exponential(...),
  retry=retry_if_exception_type((Exception,)))\<close>.  The body calls the service
  once and re-raises what it raised.  The decorator runs the body again
  after a failure until the attempt number reaches 3; \<open>reraise\<close> is left at
  its default, so on the last failure it raises \<open>RetryError\<close> around the last
  exception.  The waiting time between attempts has no effect on the result.
\<close>

function retry_attempts :: "service \<Rightarrow> prompt \<Rightarrow> real \<Rightarrow> nat \<Rightarrow> string io" where
  "retry_attempts svc p t attempt_number n =
     (case svc n p t of
        Inr text \<Rightarrow> (Inr text, Suc n)
      | Inl e \<Rightarrow>
          if attempt_number \<ge> 3 then (Inl (RetryError e), Suc n)
          else retry_attempts svc p t (Suc attempt_number) (Suc n))"
  by pat_completeness auto
termination
  by (relation "measure (\<lambda>(svc, p, t, a, n). 3 - a)") auto

definition generate_content_async :: "service \<Rightarrow> prompt \<Rightarrow> real \<Rightarrow> string io" where
  "generate_content_async svc p t = retry_attempts svc p t 1"

text \<open>
  The cleaning every structured call applies to the response before
  \<open>json.loads\<close>:
  \<^verbatim>\<open>
  json_text = response.strip()
  if json_text.startswith('```json'):   json_text = json_text[7:-3]
  elif json_text.startswith('```'):     json_text = json_text[3:-3]
  \<close>
\<close>

definition clean_json_text :: "string \<Rightarrow> string" where
  "clean_json_text response =
     (let json_text = strip response in
      if prefix ''```json'' json_text then slice_from_to_minus3 7 json_text
      else if prefix ''```'' json_text then slice_from_to_minus3 3 json_text
      else json_text)"

definition json_loads :: "pylib \<Rightarrow> string \<Rightarrow> json io" where
  "json_loads L s = lift_io (loads L s)"

subsection \<open>Pydantic models\<close>

text \<open>
  A field of type \<open>float\<close> takes a JSON number as it is, a field of type
  \<open>str\<close> a JSON string, \<open>Optional[int]\<close> takes \<open>null\<close> and an integer;
  every other value goes through the library's coercion.  \<open>List[str]\<close>
  takes a JSON array whose elements are accepted as \<open>str\<close>.
\<close>

definition as_float :: "pylib \<Rightarrow> json \<Rightarrow> real option" where
  "as_float L j = (case j of JFloat x \<Rightarrow> Some x | JInt i \<Rightarrow> Some (of_int i) | _ \<Rightarrow> lax_float L j)"

definition as_str :: "pylib \<Rightarrow> json \<Rightarrow> string option" where
  "as_str L j = (case j of JStr s \<Rightarrow> Some s | _ \<Rightarrow> lax_str L j)"

definition as_opt_int :: "pylib \<Rightarrow> json \<Rightarrow> int option option" where
  "as_opt_int L j =
     (case j of JNull \<Rightarrow> Some None | JInt i \<Rightarrow> Some (Some i) | _ \<Rightarrow> map_option Some (lax_int L j))"

definition as_str_list :: "pylib \<Rightarrow> json \<Rightarrow> string list option" where
  "as_str_list L j = (case j of JArr xs \<Rightarrow> those (map (as_str L) xs) | _ \<Rightarrow> None)"

text \<open>A required field of a model built with \<open>Model(**d)\<close>.\<close>

definition required :: "(string \<times> json) list \<Rightarrow> string \<Rightarrow> (json \<Rightarrow> 'a option) \<Rightarrow> 'a option" where
  "required kvs k conv = (case map_of kvs k of None \<Rightarrow> None | Some v \<Rightarrow> conv v)"

text \<open>\<open>Field(ge=lo, le=hi)\<close> on a \<open>float\<close> field.\<close>

definition float_between :: "pylib \<Rightarrow> real \<Rightarrow> real \<Rightarrow> json \<Rightarrow> real option" where
  "float_between L lo hi j =
     (case as_float L j of None \<Rightarrow> None | Some x \<Rightarrow> if lo \<le> x \<and> x \<le> hi then Some x else None)"

text \<open>
  \<open>ExtractedCVData(**data)\<close>: \<open>**\<close> needs a mapping (\<open>TypeError\<close>
  otherwise); the five lists are required, \<open>years_of_experience\<close> defaults to
  \<open>None\<close>; any rejected field raises \<open>ValidationError\<close>.
\<close>

definition mk_ExtractedCVData :: "pylib \<Rightarrow> json \<Rightarrow> exn + ExtractedCVData" where
  "mk_ExtractedCVData L data =
     (case data of
        JObj kvs \<Rightarrow>
          (case (required kvs ''skills'' (as_str_list L),
                 required kvs ''experiences'' (as_str_list L),
                 required kvs ''projects'' (as_str_list L),
                 required kvs ''education'' (as_str_list L),
                 (case map_of kvs ''years_of_experience'' of
                    None \<Rightarrow> Some None | Some v \<Rightarrow> as_opt_int L v),
                 required kvs ''achievements'' (as_str_list L)) of
             (Some sk, Some ex, Some pr, Some ed, Some yr, Some ac) \<Rightarrow>
               Inr \<lparr>skills = sk, experiences = ex, projects = pr, education = ed,
                    years_of_experience = yr, achievements = ac\<rparr>
           | _ \<Rightarrow> Inl ValidationError)
      | _ \<Rightarrow> Inl TypeError)"

definition mk_CVEvaluation :: "pylib \<Rightarrow> json \<Rightarrow> exn + CVEvaluation" where
  "mk_CVEvaluation L scores =
     (case scores of
        JObj kvs \<Rightarrow>
          (case (required kvs ''technical_skills_match'' (float_between L 1 5),
                 required kvs ''experience_level'' (float_between L 1 5),
                 required kvs ''relevant_achievements'' (float_between L 1 5),
                 required kvs ''cultural_fit'' (float_between L 1 5),
                 required kvs ''overall_score'' (float_between L 1 5)) of
             (Some a, Some b, Some c, Some d, Some e) \<Rightarrow>
               Inr \<lparr>technical_skills_match = a, experience_level = b,
                    relevant_achievements = c, cultural_fit = d, cv_overall_score = e\<rparr>
           | _ \<Rightarrow> Inl ValidationError)
      | _ \<Rightarrow> Inl TypeError)"

definition mk_ProjectEvaluation :: "pylib \<Rightarrow> json \<Rightarrow> exn + ProjectEvaluation" where
  "mk_ProjectEvaluation L scores =
     (case scores of
        JObj kvs \<Rightarrow>
          (case (required kvs ''correctness'' (float_between L 1 5),
                 required kvs ''code_quality'' (float_between L 1 5),
                 required kvs ''resilience'' (float_between L 1 5),
                 required kvs ''documentation'' (float_between L 1 5),
                 required kvs ''creativity'' (float_between L 1 5),
                 required kvs ''overall_score'' (float_between L 1 5)) of
             (Some a, Some b, Some c, Some d, Some e, Some f) \<Rightarrow>
               Inr \<lparr>correctness = a, code_quality = b, resilience = c,
                    documentation = d, creativity = e, overall_score = f\<rparr>
           | _ \<Rightarrow> Inl ValidationError)
      | _ \<Rightarrow> Inl TypeError)"

text \<open>
  \<open>data[key]\<close> on a parsed value: a dictionary raises \<open>KeyError\<close> for a
  missing key; every other JSON value raises \<open>TypeError\<close> for a string
  subscript.
\<close>

definition getitem :: "json \<Rightarrow> string \<Rightarrow> exn + json" where
  "getitem data k =
     (case data of
        JObj kvs \<Rightarrow> (case map_of kvs k of None \<Rightarrow> Inl (KeyError k) | Some v \<Rightarrow> Inr v)
      | _ \<Rightarrow> Inl TypeError)"

subsection \<open>The evaluation calls\<close>

definition is_JSONDecodeError :: "exn \<Rightarrow> bool" where
  "is_JSONDecodeError e = (case e of JSONDecodeError \<Rightarrow> True | _ \<Rightarrow> False)"

definition is_JSONDecodeError_or_KeyError :: "exn \<Rightarrow> bool" where
  "is_JSONDecodeError_or_KeyError e =
     (case e of JSONDecodeError \<Rightarrow> True | KeyError k \<Rightarrow> True | _ \<Rightarrow> False)"

definition empty_profile :: ExtractedCVData where
  "empty_profile =
     \<lparr>skills = [], experiences = [], projects = [], education = [],
      years_of_experience = None, achievements = []\<rparr>"

definition extract_cv_structure :: "pylib \<Rightarrow> service \<Rightarrow> string \<Rightarrow> ExtractedCVData io" where
  "extract_cv_structure L svc cv_text =
     try_except
       (bind_io (generate_content_async svc (CVStructurePrompt cv_text) 0.1) (\<lambda>response.
        bind_io (json_loads L (clean_json_text response)) (\<lambda>data.
        lift_io (mk_ExtractedCVData L data))))
       is_JSONDecodeError
       (\<lambda>e. return_io empty_profile)"

definition default_cv_evaluation :: CVEvaluation where
  "default_cv_evaluation =
     \<lparr>technical_skills_match = 3, experience_level = 3, relevant_achievements = 3,
      cultural_fit = 3, cv_overall_score = 3\<rparr>"

definition evaluate_cv_match ::
  "pylib \<Rightarrow> service \<Rightarrow> ExtractedCVData \<Rightarrow> string \<Rightarrow> string \<Rightarrow> (json \<times> json \<times> CVEvaluation) io" where
  "evaluate_cv_match L svc cv_data job_description retrieved_context =
     try_except
       (bind_io (generate_content_async svc
                   (CVMatchPrompt job_description retrieved_context cv_data) 0.1) (\<lambda>response.
        bind_io (json_loads L (clean_json_text response)) (\<lambda>data.
        bind_io (lift_io (getitem data ''detailed_scores'')) (\<lambda>scores.
        bind_io (lift_io (mk_CVEvaluation L scores)) (\<lambda>cv_evaluation.
        bind_io (lift_io (getitem data ''match_rate'')) (\<lambda>match_rate.
        bind_io (lift_io (getitem data ''feedback'')) (\<lambda>feedback.
        return_io (match_rate, feedback, cv_evaluation))))))))
       is_JSONDecodeError_or_KeyError
       (\<lambda>e. return_io (JFloat 0.5, JStr ''Unable to evaluate CV properly'', default_cv_evaluation))"

definition default_project_evaluation :: ProjectEvaluation where
  "default_project_evaluation =
     \<lparr>correctness = 3, code_quality = 3, resilience = 3,
      documentation = 3, creativity = 3, overall_score = 3\<rparr>"

definition project_fallback :: "json \<times> json \<times> ProjectEvaluation" where
  "project_fallback =
     (JFloat 5.0, JStr ''Unable to evaluate project properly'', default_project_evaluation)"

definition evaluate_project_report ::
  "pylib \<Rightarrow> service \<Rightarrow> string \<Rightarrow> string \<Rightarrow> (json \<times> json \<times> ProjectEvaluation) io" where
  "evaluate_project_report L svc project_text scoring_rubric =
     try_except
       (bind_io (generate_content_async svc
                   (ProjectInitialPrompt scoring_rubric project_text) 0.2) (\<lambda>initial_response.
        bind_io (json_loads L (clean_json_text initial_response)) (\<lambda>initial_data.
        bind_io (generate_content_async svc
                   (ProjectRefinePrompt initial_data (take 1000 project_text)) 0.1) (\<lambda>refined_response.
        bind_io (json_loads L (clean_json_text refined_response)) (\<lambda>refined_data.
        bind_io (lift_io (getitem refined_data ''detailed_scores'')) (\<lambda>scores.
        bind_io (lift_io (mk_ProjectEvaluation L scores)) (\<lambda>project_evaluation.
        bind_io (lift_io (getitem refined_data ''score'')) (\<lambda>score.
        bind_io (lift_io (getitem refined_data ''feedback'')) (\<lambda>feedback.
        return_io (score, feedback, project_evaluation))))))))))
       is_JSONDecodeError_or_KeyError
       (\<lambda>e. return_io project_fallback)"

text \<open>
  \<open>generate_overall_summary\<close> builds its prompt before the \<open>try\<close>:
  \<open>{cv_match_rate:.2f}\<close> raises for a value that is not a number
  (\<open>ValueError\<close> for a string, \<open>TypeError\<close> for \<open>None\<close>, a list or a
  dictionary).  The call itself is guarded by \<open>except Exception\<close>.
\<close>

definition format_2f :: "json \<Rightarrow> exn + unit" where
  "format_2f v =
     (case v of
        JInt i \<Rightarrow> Inr ()
      | JFloat x \<Rightarrow> Inr ()
      | JBool b \<Rightarrow> Inr ()
      | JStr s \<Rightarrow> Inl (ValueError ''Unknown format code f for object of type str'')
      | _ \<Rightarrow> Inl TypeError)"

definition generate_overall_summary :: "service \<Rightarrow> json \<Rightarrow> json \<Rightarrow> json \<Rightarrow> json \<Rightarrow> string io" where
  "generate_overall_summary svc cv_feedback project_feedback cv_match_rate project_score =
     bind_io (lift_io (format_2f cv_match_rate)) (\<lambda>u.
       try_except
         (generate_content_async svc
            (SummaryPrompt cv_match_rate cv_feedback project_score project_feedback) 0.3)
         (\<lambda>e. True)
         (\<lambda>e. return_io ''Unable to generate comprehensive summary due to evaluation errors.''))"

section \<open>Context store: \<open>vector_db.py\<close>\<close>

text \<open>
  \<open>self.documents\<close> is a dictionary from document id to a dictionary of
  fields, kept in insertion order.  Python does not check the type hints of
  \<open>add_document\<close>, so a stored field is any value; only strings behave as
  the retrieval expects.
\<close>

datatype pyval = PStr string | PNone | PInt int

type_synonym doc_data = "(string \<times> pyval) list"

type_synonym documents = "(string \<times> doc_data) list"

record retrieved_doc =
  content :: string
  metadata_type :: pyval
  metadata_category :: pyval
  score :: nat

text \<open>\<open>d[k]\<close> on a dictionary.\<close>

definition dict_get :: "doc_data \<Rightarrow> string \<Rightarrow> exn + pyval" where
  "dict_get d k = (case map_of d k of None \<Rightarrow> Inl (KeyError k) | Some v \<Rightarrow> Inr v)"

text \<open>\<open>d[k] = v\<close>: an existing key keeps its place, a new key goes last.\<close>

fun dict_set :: "('k \<times> 'v) list \<Rightarrow> 'k \<Rightarrow> 'v \<Rightarrow> ('k \<times> 'v) list" where
  "dict_set [] k v = [(k, v)]"
| "dict_set ((k', v') # kvs) k v = (if k' = k then (k, v) # kvs else (k', v') # dict_set kvs k v)"

definition add_document :: "documents \<Rightarrow> string \<Rightarrow> string \<Rightarrow> string \<Rightarrow> string \<Rightarrow> documents" where
  "add_document docs doc_content doc_id doc_type category =
     dict_set docs doc_id
       [(''id'', PStr doc_id), (''content'', PStr doc_content),
        (''type'', PStr doc_type), (''category'', PStr category)]"

text \<open>
  \<open>_populate_initial_data\<close> stores three documents under their ids: a
  job description and two scoring rubrics.  Their contents are long string
  literals of the source and are parameters here.
\<close>

definition populate_initial_data :: "documents \<Rightarrow> string \<Rightarrow> string \<Rightarrow> string \<Rightarrow> documents" where
  "populate_initial_data docs backend_text cv_rubric_text project_rubric_text =
     dict_set
       (dict_set
          (dict_set docs ''job_desc_backend''
             [(''id'', PStr ''job_desc_backend''), (''content'', PStr backend_text),
              (''type'', PStr ''job_description''), (''category'', PStr ''backend_developer'')])
          ''scoring_rubric_cv''
          [(''id'', PStr ''scoring_rubric_cv''), (''content'', PStr cv_rubric_text),
           (''type'', PStr ''scoring_rubric''), (''category'', PStr ''cv_evaluation'')])
       ''scoring_rubric_project''
       [(''id'', PStr ''scoring_rubric_project''), (''content'', PStr project_rubric_text),
        (''type'', PStr ''scoring_rubric''), (''category'', PStr ''project_evaluation'')]"

text \<open>\<open>s.split()\<close>: the maximal runs of characters that are not white space.\<close>

fun split_aux :: "string \<Rightarrow> string \<Rightarrow> string list" where
  "split_aux cur [] = (if cur = [] then [] else [cur])"
| "split_aux cur (c # cs) =
     (if is_space c then (if cur = [] then split_aux [] cs else cur # split_aux [] cs)
      else split_aux (cur @ [c]) cs)"

definition split :: "string \<Rightarrow> string list" where
  "split s = split_aux [] s"

text \<open>\<open>xs[:n]\<close> for an integer \<open>n\<close>: a negative \<open>n\<close> counts from the end.\<close>

definition slice_to :: "int \<Rightarrow> 'a list \<Rightarrow> 'a list" where
  "slice_to n xs = (if 0 \<le> n then take (nat n) xs else take (length xs - nat (- n)) xs)"

text \<open>
  One iteration of the loop of \<open>retrieve_context\<close>: \<open>Inr None\<close> is
  \<open>continue\<close> or a score of 0, \<open>Inr (Some r)\<close> the entry appended.
  \<open>word in content_lower\<close> is the substring test \<open>sublist\<close>;
  \<open>.lower()\<close> on a value that is not a string raises \<open>AttributeError\<close>.
\<close>

definition visit_document :: "string list \<Rightarrow> string option \<Rightarrow> doc_data \<Rightarrow> exn + retrieved_doc option" where
  "visit_document query_words context_type doc_data =
     (let scored =
        (case dict_get doc_data ''content'' of
           Inl e \<Rightarrow> Inl e
         | Inr (PStr c) \<Rightarrow>
             (let content_lower = lower c;
                  sc = length (filter (\<lambda>word. sublist word content_lower) query_words)
              in if sc > 0 then
                   (case dict_get doc_data ''type'' of
                      Inl e \<Rightarrow> Inl e
                    | Inr ty \<Rightarrow>
                        (case dict_get doc_data ''category'' of
                           Inl e \<Rightarrow> Inl e
                         | Inr cat \<Rightarrow>
                             Inr (Some \<lparr>content = c, metadata_type = ty,
                                        metadata_category = cat, score = sc\<rparr>)))
                 else Inr None)
         | Inr _ \<Rightarrow> Inl AttributeError)
      in case context_type of
           None \<Rightarrow> scored
         | Some t \<Rightarrow>
             if t = [] then scored
             else (case dict_get doc_data ''type'' of
                     Inl e \<Rightarrow> Inl e
                   | Inr ty \<Rightarrow> if ty \<noteq> PStr t then Inr None else scored))"

fun retrieve_loop ::
  "string list \<Rightarrow> string option \<Rightarrow> documents \<Rightarrow> retrieved_doc list \<Rightarrow> exn + retrieved_doc list" where
  "retrieve_loop query_words context_type [] retrieved_docs = Inr retrieved_docs"
| "retrieve_loop query_words context_type ((doc_id, doc_data) # rest) retrieved_docs =
     (case visit_document query_words context_type doc_data of
        Inl e \<Rightarrow> Inl e
      | Inr None \<Rightarrow> retrieve_loop query_words context_type rest retrieved_docs
      | Inr (Some r) \<Rightarrow> retrieve_loop query_words context_type rest (retrieved_docs @ [r]))"

text \<open>
  \<open>list.sort(key=score, reverse=True)\<close> is a stable sort by descending
  score: entries with equal scores keep their order.
\<close>

definition sort_by_score_desc :: "retrieved_doc list \<Rightarrow> retrieved_doc list" where
  "sort_by_score_desc ds = sort_key (\<lambda>d. - int (score d)) ds"

text \<open>The body of the \<open>try\<close> block of \<open>retrieve_context\<close>.\<close>

definition retrieve_body :: "documents \<Rightarrow> string \<Rightarrow> string option \<Rightarrow> int \<Rightarrow> exn + retrieved_doc list" where
  "retrieve_body docs query context_type n_results =
     (case retrieve_loop (split (lower query)) context_type docs [] of
        Inl e \<Rightarrow> Inl e
      | Inr retrieved_docs \<Rightarrow> Inr (slice_to n_results (sort_by_score_desc retrieved_docs)))"

text \<open>\<open>except Exception: return []\<close>.\<close>

definition retrieve_context :: "documents \<Rightarrow> string \<Rightarrow> string option \<Rightarrow> int \<Rightarrow> exn + retrieved_doc list" where
  "retrieve_context docs query context_type n_results =
     (case retrieve_body docs query context_type n_results of
        Inl e \<Rightarrow> Inr []
      | Inr retrieved_docs \<Rightarrow> Inr retrieved_docs)"

definition returned :: "exn + 'a list \<Rightarrow> 'a list" where
  "returned r = (case r of Inl e \<Rightarrow> [] | Inr xs \<Rightarrow> xs)"

section \<open>Document reader: \<open>document_processor.py\<close>\<close>

text \<open>
  \<open>os.path.splitext(p)[1]\<close> with \<open>/\<close> as separator: the part from the last
  dot of the last path component, provided a character other than a dot
  comes before that dot in the component; otherwise empty.
\<close>

definition splitext_ext :: "string \<Rightarrow> string" where
  "splitext_ext p =
     (let base = rev (takeWhile (\<lambda>c. c \<noteq> CHR ''/'') (rev p)) in
      if CHR ''.'' \<notin> set base then []
      else
        (let e = rev (takeWhile (\<lambda>c. c \<noteq> CHR ''.'') (rev base));
             stem = take (length base - length e - 1) base
         in if list_ex (\<lambda>c. c \<noteq> CHR ''.'') stem then CHR ''.'' # e else []))"

text \<open>
  The format-specific readers (\<open>PyPDF2\<close>, \<open>python-docx\<close>, \<open>aiofiles\<close>)
  are parameters: each raises or returns the text of the file.
\<close>

record readers =
  extract_from_pdf :: "string \<Rightarrow> exn + string"
  extract_from_docx :: "string \<Rightarrow> exn + string"
  extract_from_txt :: "string \<Rightarrow> exn + string"

definition extract_text_from_file :: "readers \<Rightarrow> string \<Rightarrow> exn + string" where
  "extract_text_from_file R file_path =
     (let file_extension = lower (splitext_ext file_path) in
      if file_extension = ''.pdf'' then extract_from_pdf R file_path
      else if file_extension \<in> set [''.docx'', ''.doc''] then extract_from_docx R file_path
      else if file_extension = ''.txt'' then extract_from_txt R file_path
      else Inl (ValueError (''Unsupported file format: '' @ file_extension)))"

definition validate_file_format :: "string \<Rightarrow> bool" where
  "validate_file_format filename =
     (lower (splitext_ext filename) \<in> set [''.pdf'', ''.docx'', ''.doc'', ''.txt''])"

section \<open>Tasks: \<open>schemas.py\<close>, \<open>models/database.py\<close>\<close>

datatype TaskStatus = QUEUED | PROCESSING | COMPLETED | FAILED

record EvaluationResult =
  cv_match_rate :: real
  cv_feedback :: string
  project_score :: real
  project_feedback :: string
  overall_summary :: string
  cv_evaluation_details :: "CVEvaluation option"
  project_evaluation_details :: "ProjectEvaluation option"

text \<open>
  A row of \<open>evaluation_tasks\<close>.  \<open>task_id\<close> is the column \<open>id\<close>, the
  primary key; \<open>updated_at\<close> is left out, nothing reads it.  The table is
  the list of its rows.  Statements on the table are modelled as succeeding.
\<close>

record EvaluationTask =
  task_id :: string
  status :: TaskStatus
  cv_file_path :: string
  project_report_path :: string
  job_description :: "string option"
  result :: "EvaluationResult option"
  error_message :: "string option"
  created_at :: nat

type_synonym table = "EvaluationTask list"

text \<open>\<open>select(EvaluationTask).where(id == tid)\<close>, \<open>scalar_one_or_none\<close>.\<close>

definition select_task :: "table \<Rightarrow> string \<Rightarrow> EvaluationTask option" where
  "select_task db tid = find (\<lambda>t. task_id t = tid) db"

text \<open>\<open>update(EvaluationTask).where(id == tid).values(...)\<close> and commit.\<close>

definition update_task :: "table \<Rightarrow> string \<Rightarrow> (EvaluationTask \<Rightarrow> EvaluationTask) \<Rightarrow> table" where
  "update_task db tid f = map (\<lambda>t. if task_id t = tid then f t else t) db"

section \<open>Orchestrator and task lifecycle: \<open>evaluation_pipeline.py\<close>\<close>

text \<open>
  What a run meets outside the program: the generation service, the file
  readers, and the random draws of \<open>_simulate_processing_delay\<close> (whether
  the 5 percent failure fires and which message \<open>random.choice\<close> picks).
\<close>

record env =
  generate_content :: service
  file_readers :: readers
  random_failure :: bool
  random_choice :: nat

fun join :: "string \<Rightarrow> string list \<Rightarrow> string" where
  "join sep [] = []"
| "join sep [x] = x"
| "join sep (x # y # ys) = x @ sep @ join sep (y # ys)"

definition failure_types :: "string list" where
  "failure_types =
     [''Gemini API rate limit exceeded'',
      ''Network timeout during AI processing'',
      ''Temporary service unavailable'']"

definition simulate_processing_delay :: "env \<Rightarrow> exn + unit" where
  "simulate_processing_delay E =
     (if random_failure E then Inl (Exception (failure_types ! (random_choice E mod 3)))
      else Inr ())"

text \<open>
  \<open>EvaluationResult(...)\<close>: the match rate must lie in \<open>[0, 1]\<close>, the
  project score in \<open>[1, 10]\<close>, both feedbacks must be strings.
\<close>

definition mk_EvaluationResult ::
  "pylib \<Rightarrow> json \<Rightarrow> json \<Rightarrow> json \<Rightarrow> json \<Rightarrow> string \<Rightarrow> CVEvaluation \<Rightarrow> ProjectEvaluation
   \<Rightarrow> exn + EvaluationResult" where
  "mk_EvaluationResult L rate fb pscore pfb summary cv_ev pj_ev =
     (case (float_between L 0 1 rate, as_str L fb, float_between L 1 10 pscore, as_str L pfb) of
        (Some r, Some f, Some ps, Some pf) \<Rightarrow>
          Inr \<lparr>cv_match_rate = r, cv_feedback = f, project_score = ps, project_feedback = pf,
               overall_summary = summary, cv_evaluation_details = Some cv_ev,
               project_evaluation_details = Some pj_ev\<rparr>
      | _ \<Rightarrow> Inl ValidationError)"

text \<open>\<open>task.job_description or "Backend Developer Position"\<close>.\<close>

definition job_description_or_default :: "EvaluationTask \<Rightarrow> string" where
  "job_description_or_default task =
     (case job_description task of
        None \<Rightarrow> ''Backend Developer Position''
      | Some d \<Rightarrow> if d = [] then ''Backend Developer Position'' else d)"

definition blank_line :: string where
  "blank_line = [CHR 0x0A, CHR 0x0A]"

text \<open>Steps 2 to 5 of \<open>_execute_pipeline\<close>, from the extracted profile on.\<close>

definition steps_after_extraction ::
  "pylib \<Rightarrow> env \<Rightarrow> documents \<Rightarrow> EvaluationTask \<Rightarrow> string \<Rightarrow> ExtractedCVData \<Rightarrow> EvaluationResult io" where
  "steps_after_extraction L E docs task project_text cv_data =
     bind_io (lift_io (retrieve_context docs
                (''backend developer requirements '' @ join '' '' (take 5 (skills cv_data)))
                (Some ''job_description'') 2)) (\<lambda>job_context.
     bind_io (lift_io (retrieve_context docs
                ''CV evaluation scoring technical skills experience''
                (Some ''scoring_rubric'') 1)) (\<lambda>cv_context.
     bind_io (evaluate_cv_match L (generate_content E) cv_data
                (job_description_or_default task)
                (join blank_line (map content (job_context @ cv_context)))) (\<lambda>(rate, fb, cv_ev).
     bind_io (lift_io (retrieve_context docs
                ''project evaluation rubric code quality correctness resilience documentation''
                (Some ''scoring_rubric'') 2)) (\<lambda>project_context.
     bind_io (evaluate_project_report L (generate_content E) project_text
                (join blank_line (map content project_context))) (\<lambda>(pscore, pfb, pj_ev).
     bind_io (generate_overall_summary (generate_content E) fb pfb rate pscore) (\<lambda>summary.
     lift_io (mk_EvaluationResult L rate fb pscore pfb summary cv_ev pj_ev)))))))"

definition execute_pipeline ::
  "pylib \<Rightarrow> env \<Rightarrow> documents \<Rightarrow> EvaluationTask \<Rightarrow> EvaluationResult io" where
  "execute_pipeline L E docs task =
     bind_io (lift_io (extract_text_from_file (file_readers E) (cv_file_path task))) (\<lambda>cv_text.
     bind_io (lift_io (extract_text_from_file (file_readers E) (project_report_path task))) (\<lambda>project_text.
     bind_io (extract_cv_structure L (generate_content E) cv_text) (\<lambda>cv_data.
     steps_after_extraction L E docs task project_text cv_data)))"

text \<open>
  The \<open>try\<close> block of \<open>run_evaluation\<close> after the first commit: the task is
  read back, the simulated delay may raise, the pipeline runs.
\<close>

definition evaluation_attempt ::
  "pylib \<Rightarrow> env \<Rightarrow> documents \<Rightarrow> string \<Rightarrow> table \<Rightarrow> exn + EvaluationResult" where
  "evaluation_attempt L E docs tid db =
     (case select_task db tid of
        None \<Rightarrow> Inl (ValueError (''Task '' @ tid @ '' not found''))
      | Some task \<Rightarrow>
          (case simulate_processing_delay E of
             Inl e \<Rightarrow> Inl e
           | Inr u \<Rightarrow> fst (execute_pipeline L E docs task 0)))"

text \<open>
  \<open>run_evaluation\<close> returns the table as it stands after each commit, in
  order, and the exception it re-raises, if any.
\<close>

definition run_evaluation ::
  "pylib \<Rightarrow> env \<Rightarrow> documents \<Rightarrow> string \<Rightarrow> table \<Rightarrow> table list \<times> exn option" where
  "run_evaluation L E docs tid db =
     (let db1 = update_task db tid (\<lambda>t. t\<lparr>status := PROCESSING\<rparr>) in
      case evaluation_attempt L E docs tid db1 of
        Inr evaluation_result \<Rightarrow>
          ([db1, update_task db1 tid (\<lambda>t. t\<lparr>status := COMPLETED, result := Some evaluation_result\<rparr>)],
           None)
      | Inl e \<Rightarrow>
          ([db1, update_task db1 tid (\<lambda>t. t\<lparr>status := FAILED, error_message := Some (py_str e)\<rparr>)],
           Some e))"

section \<open>Routes: \<open>routes.py\<close>\<close>

datatype HTTPException = HTTPException nat string

text \<open>
  The file system is the set of paths that exist.  \<open>os.remove\<close> may raise;
  \<open>remove_raises\<close> says for which paths.
\<close>

type_synonym filesystem = "string set"

definition MAX_FILE_SIZE :: nat where
  "MAX_FILE_SIZE = 10 * 1024 * 1024"

definition UPLOAD_DIR :: string where
  "UPLOAD_DIR = ''uploads''"

definition new_task :: "string \<Rightarrow> nat \<Rightarrow> string \<Rightarrow> string \<Rightarrow> string \<Rightarrow> EvaluationTask" where
  "new_task tid now cv pr jd =
     \<lparr>task_id = tid, status = QUEUED, cv_file_path = cv, project_report_path = pr,
      job_description = Some jd, result = None, error_message = None, created_at = now\<rparr>"

text \<open>
  \<open>POST /evaluate\<close>.  The answer, the table, and the id handed to
  \<open>background_tasks.add_task(pipeline.run_evaluation, task.id)\<close>.
  \<open>tid\<close> is the fresh \<open>uuid4\<close>, \<open>now\<close> the time of creation.
\<close>

definition create_evaluation_task ::
  "filesystem \<Rightarrow> table \<Rightarrow> string \<Rightarrow> nat \<Rightarrow> string \<Rightarrow> string \<Rightarrow> string
   \<Rightarrow> (HTTPException + string \<times> TaskStatus) \<times> table \<times> string option" where
  "create_evaluation_task fs db tid now cv pr jd =
     (if cv \<notin> fs then (Inl (HTTPException 404 ''CV file not found''), db, None)
      else if pr \<notin> fs then (Inl (HTTPException 404 ''Project report file not found''), db, None)
      else (Inr (tid, QUEUED), db @ [new_task tid now cv pr jd], Some tid))"

text \<open>
  \<open>POST /evaluate-direct\<close>: an upload is its file name and the length of
  its content.  \<open>session\<close> is the \<open>uuid4\<close> of the stored file names.
  Writing the two files is modelled as succeeding.
\<close>

record UploadFile =
  filename :: string
  size_of_content :: nat

definition evaluate_files_direct ::
  "filesystem \<Rightarrow> table \<Rightarrow> string \<Rightarrow> string \<Rightarrow> nat \<Rightarrow> UploadFile \<Rightarrow> UploadFile \<Rightarrow> string
   \<Rightarrow> (HTTPException + string \<times> TaskStatus) \<times> table \<times> filesystem \<times> string option" where
  "evaluate_files_direct fs db session tid now cv_file project_report jd =
     (if \<not> validate_file_format (filename cv_file) then
        (Inl (HTTPException 400 ''Invalid CV file format. Supported: PDF, DOCX, TXT''), db, fs, None)
      else if \<not> validate_file_format (filename project_report) then
        (Inl (HTTPException 400 ''Invalid project report file format. Supported: PDF, DOCX, TXT''),
         db, fs, None)
      else if size_of_content cv_file > MAX_FILE_SIZE then
        (Inl (HTTPException 400 ''CV file too large (max 10MB)''), db, fs, None)
      else if size_of_content project_report > MAX_FILE_SIZE then
        (Inl (HTTPException 400 ''Project report file too large (max 10MB)''), db, fs, None)
      else
        (let cv_path = UPLOAD_DIR @ ''/'' @ session @ ''_cv_'' @ filename cv_file;
             project_path = UPLOAD_DIR @ ''/'' @ session @ ''_project_'' @ filename project_report
         in (Inr (tid, QUEUED), db @ [new_task tid now cv_path project_path jd],
             fs \<union> {cv_path, project_path}, Some tid)))"

text \<open>\<open>GET /result/{task_id}\<close>: status, result and error of the answer.\<close>

definition get_evaluation_result ::
  "table \<Rightarrow> string \<Rightarrow> HTTPException + TaskStatus \<times> EvaluationResult option \<times> string option" where
  "get_evaluation_result db tid =
     (case select_task db tid of
        None \<Rightarrow> Inl (HTTPException 404 ''Task not found'')
      | Some task \<Rightarrow>
          Inr (status task,
               if status task = COMPLETED then result task else None,
               if status task = FAILED \<and> error_message task \<noteq> Some [] then error_message task
               else None))"

text \<open>
  \<open>GET /tasks\<close>: the ids listed, newest first.  As in SQLite, a negative
  limit is no limit and a negative offset is 0.
\<close>

definition list_tasks :: "table \<Rightarrow> int \<Rightarrow> int \<Rightarrow> string list" where
  "list_tasks db limit offset =
     (let ordered = sort_key (\<lambda>t. - int (created_at t)) db;
          skipped = drop (nat offset) ordered
      in map task_id (if limit < 0 then skipped else take (nat limit) skipped))"

text \<open>
  \<open>DELETE /task/{task_id}\<close>.  The two removals share one \<open>try\<close>: when the
  first raises, the second is not tried; the row is deleted in any case.
\<close>

definition os_remove :: "(string \<Rightarrow> bool) \<Rightarrow> string \<Rightarrow> filesystem \<Rightarrow> exn + filesystem" where
  "os_remove remove_raises p fs =
     (if remove_raises p then Inl (Exception ''OSError'') else Inr (fs - {p}))"

definition delete_files :: "(string \<Rightarrow> bool) \<Rightarrow> EvaluationTask \<Rightarrow> filesystem \<Rightarrow> filesystem" where
  "delete_files remove_raises task fs =
     (case (if cv_file_path task \<in> fs then os_remove remove_raises (cv_file_path task) fs
            else Inr fs) of
        Inl e \<Rightarrow> fs
      | Inr fs1 \<Rightarrow>
          (case (if project_report_path task \<in> fs1
                 then os_remove remove_raises (project_report_path task) fs1
                 else Inr fs1) of
             Inl e \<Rightarrow> fs1
           | Inr fs2 \<Rightarrow> fs2))"

definition delete_task ::
  "(string \<Rightarrow> bool) \<Rightarrow> filesystem \<Rightarrow> table \<Rightarrow> string
   \<Rightarrow> (HTTPException + string) \<times> table \<times> filesystem" where
  "delete_task remove_raises fs db tid =
     (case select_task db tid of
        None \<Rightarrow> (Inl (HTTPException 404 ''Task not found''), db, fs)
      | Some task \<Rightarrow>
          (Inr (''Task '' @ tid @ '' deleted successfully''),
           filter (\<lambda>t. task_id t \<noteq> tid) db,
           delete_files remove_raises task fs))"

section \<open>Notions used to state the properties\<close>

subsection \<open>Task lifecycle\<close>

text \<open>
  The invariant of the data model: the result is set exactly in
  \<open>COMPLETED\<close>, the error exactly in \<open>FAILED\<close>.
\<close>

definition task_invariant :: "EvaluationTask \<Rightarrow> bool" where
  "task_invariant t =
     (((result t \<noteq> None) = (status t = COMPLETED)) \<and>
      ((error_message t \<noteq> None) = (status t = FAILED)))"

text \<open>A task as the routes create it.\<close>

definition freshly_queued :: "EvaluationTask \<Rightarrow> bool" where
  "freshly_queued t = (status t = QUEUED \<and> result t = None \<and> error_message t = None)"

text \<open>The status of task \<open>tid\<close> in each of a sequence of tables.\<close>

definition status_trace :: "string \<Rightarrow> table list \<Rightarrow> TaskStatus option list" where
  "status_trace tid dbs = map (\<lambda>db. map_option status (select_task db tid)) dbs"

subsection \<open>JSON text\<close>

text \<open>
  Two facts about \<open>json.loads\<close> and JSON text: a text that parses also
  parses, to the same value, once the white space around it is stripped;
  and the stripped text begins with the first character of a JSON value.
\<close>

definition json_start :: "char \<Rightarrow> bool" where
  "json_start c = (c \<in> set ''{[-0123456789tfnNI'' \<or> c = CHR 0x22)"

definition starts_like_json :: "string \<Rightarrow> bool" where
  "starts_like_json s = (case s of [] \<Rightarrow> False | c # cs \<Rightarrow> json_start c)"

definition json_text_facts :: "(string \<Rightarrow> exn + json) \<Rightarrow> bool" where
  "json_text_facts ld =
     (\<forall>s j. ld s = Inr j \<longrightarrow> ld (strip s) = Inr j \<and> starts_like_json (strip s))"

subsection \<open>Retrieval as the specification words it\<close>

text \<open>
  The relevance of a text for a query: the number of query terms (the query
  in lower case, split at white space) that occur in the text in lower case.
\<close>

definition relevance :: "string \<Rightarrow> string \<Rightarrow> nat" where
  "relevance query text = length (filter (\<lambda>w. sublist w (lower text)) (split (lower query)))"

text \<open>
  A stored document is well formed when content, type and category are
  strings, as \<open>add_document\<close> and the initial corpus store them.
\<close>

definition is_str :: "pyval option \<Rightarrow> bool" where
  "is_str v = (case v of Some (PStr s) \<Rightarrow> True | _ \<Rightarrow> False)"

definition wf_doc :: "doc_data \<Rightarrow> bool" where
  "wf_doc d =
     (is_str (map_of d ''content'') \<and> is_str (map_of d ''type'') \<and> is_str (map_of d ''category''))"

definition wf_documents :: "documents \<Rightarrow> bool" where
  "wf_documents docs = list_all (\<lambda>(doc_id, d). wf_doc d) docs"

definition content_of :: "doc_data \<Rightarrow> string" where
  "content_of d = (case map_of d ''content'' of Some (PStr c) \<Rightarrow> c | _ \<Rightarrow> [])"

definition field_of :: "doc_data \<Rightarrow> string \<Rightarrow> pyval" where
  "field_of d k = (case map_of d k of Some v \<Rightarrow> v | None \<Rightarrow> PNone)"

text \<open>An absent or empty filter matches every type.\<close>

definition matches_filter :: "string option \<Rightarrow> doc_data \<Rightarrow> bool" where
  "matches_filter context_type d =
     (case context_type of
        None \<Rightarrow> True
      | Some t \<Rightarrow> t = [] \<or> field_of d ''type'' = PStr t)"

text \<open>The documents to return, in insertion order, and the entry made of one.\<close>

definition relevant :: "string \<Rightarrow> string option \<Rightarrow> documents \<Rightarrow> doc_data list" where
  "relevant query context_type docs =
     filter (\<lambda>d. matches_filter context_type d \<and> 0 < relevance query (content_of d)) (map snd docs)"

definition as_result :: "string \<Rightarrow> doc_data \<Rightarrow> retrieved_doc" where
  "as_result query d =
     \<lparr>content = content_of d, metadata_type = field_of d ''type'',
      metadata_category = field_of d ''category'', score = relevance query (content_of d)\<rparr>"

text \<open>
  The filter read to the letter: a returned entry passes a given filter
  only when its type is the filter's string.
\<close>

definition type_equals_filter :: "string option \<Rightarrow> retrieved_doc \<Rightarrow> bool" where
  "type_equals_filter context_type r =
     (case context_type of None \<Rightarrow> True | Some t \<Rightarrow> metadata_type r = PStr t)"

section \<open>Example inputs\<close>

text \<open>A service that is out of quota, one that answers in prose, one that answers \<open>{}\<close>.\<close>

definition quota_exceeded :: service where
  "quota_exceeded = (\<lambda>k p t. Inl (Exception ''quota exceeded''))"

definition prose_service :: service where
  "prose_service = (\<lambda>k p t. Inr ''I cannot help with that'')"

definition empty_object_service :: service where
  "empty_object_service = (\<lambda>k p t. Inr ''{}'')"

text \<open>
  \<open>json.loads\<close> on the two texts the examples use: \<open>{}\<close> is the empty
  object, the prose is not JSON.  The coercions reject everything.
\<close>

definition example_lib :: pylib where
  "example_lib =
     \<lparr>loads = (\<lambda>s. if s = ''{}'' then Inr (JObj []) else Inl JSONDecodeError),
      lax_float = (\<lambda>j. None), lax_str = (\<lambda>j. None), lax_int = (\<lambda>j. None)\<rparr>"

text \<open>
  A response of 1500 opening brackets: it is not JSON, and \<open>json.loads\<close>
  raises \<open>RecursionError\<close> on it, not \<open>JSONDecodeError\<close>.  One service
  answers every call with it, another answers the first call with \<open>{}\<close>
  and the later ones with it.
\<close>

definition deep_text :: string where
  "deep_text = replicate 1500 CHR ''[''"

definition deep_lib :: pylib where
  "deep_lib =
     \<lparr>loads = (\<lambda>s. if s = deep_text then Inl RecursionError
                   else if s = ''{}'' then Inr (JObj []) else Inl JSONDecodeError),
      lax_float = (\<lambda>j. None), lax_str = (\<lambda>j. None), lax_int = (\<lambda>j. None)\<rparr>"

definition deep_nesting_service :: service where
  "deep_nesting_service = (\<lambda>k p t. Inr deep_text)"

definition deep_on_refinement_service :: service where
  "deep_on_refinement_service = (\<lambda>k p t. if k = 0 then Inr ''{}'' else Inr deep_text)"

definition example_readers :: readers where
  "example_readers =
     \<lparr>extract_from_pdf = (\<lambda>p. Inr ''text of a pdf''),
      extract_from_docx = (\<lambda>p. Inr ''text of a docx''),
      extract_from_txt = (\<lambda>p. Inr ''Python and Docker, five years'')\<rparr>"

definition example_env :: "service \<Rightarrow> env" where
  "example_env svc =
     \<lparr>generate_content = svc, file_readers = example_readers,
      random_failure = False, random_choice = 0\<rparr>"

definition example_docs :: documents where
  "example_docs =
     add_document
       (add_document
          (add_document [] ''Backend role: Python, Docker'' ''job_desc_backend''
             ''job_description'' ''backend_developer'')
          ''CV rubric: skills'' ''scoring_rubric_cv'' ''scoring_rubric'' ''cv_evaluation'')
       ''Project rubric: code quality'' ''scoring_rubric_project''
       ''scoring_rubric'' ''project_evaluation''"

text \<open>A store with a document that has no content.\<close>

definition broken_docs :: documents where
  "broken_docs = [(''d1'', [(''id'', PStr ''d1''), (''type'', PStr ''scoring_rubric'')])]"

definition example_table :: table where
  "example_table = [new_task ''t1'' 0 ''cv.txt'' ''report.txt'' ''Backend Developer position'']"

section \<open>AI gateway: retries\<close>

lemma retry_three_failures:
  assumes "svc n p t = Inl e0" and "svc (Suc n) p t = Inl e1" and "svc (Suc (Suc n)) p t = Inl e2"
  shows "generate_content_async svc p t n = (Inl (RetryError e2), n + 3)"
  using assms by (simp add: generate_content_async_def)

lemma retry_first_success:
  assumes "svc n p t = Inr text"
  shows "generate_content_async svc p t n = (Inr text, Suc n)"
  using assms by (simp add: generate_content_async_def)

text \<open>
  C2, as stated, fails: when the service raises \<open>Exception('quota exceeded')\<close>
  on every attempt, the caller does not receive that exception but a
  \<open>RetryError\<close> around it.
\<close>

theorem gateway_propagates_final_error_counterexample:
  "fst (generate_content_async quota_exceeded (RawPrompt ''Hello'') 0.1 0)
     = Inl (RetryError (Exception ''quota exceeded''))
   \<and> fst (generate_content_async quota_exceeded (RawPrompt ''Hello'') 0.1 0)
     \<noteq> Inl (Exception ''quota exceeded'')"
  by (simp add: generate_content_async_def quota_exceeded_def)

text \<open>
  C2, amended: for every prompt and temperature, if the underlying call
  raises on every attempt, \<open>generate_content_async\<close> makes exactly 3 attempts
  (the calls numbered \<open>n\<close>, \<open>n + 1\<close>, \<open>n + 2\<close>) and then raises
  \<open>RetryError\<close> carrying the exception of the third attempt.
\<close>

theorem gateway_three_attempts_then_RetryError:
  assumes "\<forall>k. \<exists>e. svc k p t = Inl e"
  shows "\<exists>e. svc (n + 2) p t = Inl e \<and>
             generate_content_async svc p t n = (Inl (RetryError e), n + 3)"
proof -
  obtain e0 where e0: "svc n p t = Inl e0" using assms by blast
  obtain e1 where e1: "svc (Suc n) p t = Inl e1" using assms by blast
  obtain e2 where e2: "svc (Suc (Suc n)) p t = Inl e2" using assms by blast
  from retry_three_failures [of svc n p t e0 e1 e2] e0 e1 e2 show ?thesis by simp
qed

theorem gateway_three_attempts_then_RetryError_witness:
  "(\<forall>k. \<exists>e. quota_exceeded k (RawPrompt ''Hello'') 0.1 = Inl e)
   \<and> quota_exceeded 2 (RawPrompt ''Hello'') 0.1 = Inl (Exception ''quota exceeded'')
   \<and> generate_content_async quota_exceeded (RawPrompt ''Hello'') 0.1 0
       = (Inl (RetryError (Exception ''quota exceeded'')), 3)"
proof -
  have h: "\<forall>k. \<exists>e. quota_exceeded k (RawPrompt ''Hello'') 0.1 = Inl e"
    by (simp add: quota_exceeded_def)
  from gateway_three_attempts_then_RetryError [of quota_exceeded "RawPrompt ''Hello''" "0.1" 0] h
  show ?thesis by (simp add: quota_exceeded_def)
qed

section \<open>AI gateway: code fences\<close>

lemma strip_no_space_ends:
  assumes "\<not> is_space a" and "\<not> is_space b"
  shows "strip (a # xs @ [b]) = a # xs @ [b]"
  using assms by (simp add: strip_def)

lemma backquote_no_space: "\<not> is_space CHR ''`''"
  by (simp add: is_space_def)

lemma clean_fenced_json: "clean_json_text (''```json'' @ p @ ''```'') = p"
proof -
  have "strip (''```json'' @ p @ ''```'') = ''```json'' @ p @ ''```''"
    using strip_no_space_ends [OF backquote_no_space backquote_no_space, of "''``json'' @ p @ ''``''"]
    by simp
  then show ?thesis
    by (simp add: clean_json_text_def slice_from_to_minus3_def)
qed

lemma clean_fenced_plain:
  assumes "\<not> prefix ''j'' p"
  shows "clean_json_text (''```'' @ p @ ''```'') = p"
proof -
  have "strip (''```'' @ p @ ''```'') = ''```'' @ p @ ''```''"
    using strip_no_space_ends [OF backquote_no_space backquote_no_space, of "''``'' @ p @ ''``''"]
    by simp
  moreover have "\<not> prefix ''json'' (p @ ''```'')"
    using assms by (cases p) auto
  ultimately show ?thesis
    by (simp add: clean_json_text_def slice_from_to_minus3_def)
qed

lemma strip_keeps_nonspace_head:
  assumes "\<not> is_space c"
  shows "\<exists>cs'. strip (c # cs) = c # cs'"
proof -
  have "dropWhile is_space (rev cs @ [c]) = dropWhile is_space (rev cs) @ [c]"
    using assms by (simp add: dropWhile_append3)
  then show ?thesis using assms by (simp add: strip_def)
qed

lemma json_payload_head:
  assumes "starts_like_json (strip p)"
  shows "\<not> prefix ''j'' p" and "\<not> prefix ''```'' (strip p)"
proof -
  show "\<not> prefix ''```'' (strip p)"
    using assms by (cases "strip p") (auto simp: starts_like_json_def json_start_def)
  show "\<not> prefix ''j'' p"
  proof
    assume "prefix ''j'' p"
    then obtain cs where p: "p = CHR ''j'' # cs" by (cases p) auto
    have "\<not> is_space CHR ''j''" by (simp add: is_space_def)
    from strip_keeps_nonspace_head [OF this, of cs] p
    obtain cs' where "strip p = CHR ''j'' # cs'" by auto
    with assms show False by (simp add: starts_like_json_def json_start_def)
  qed
qed

lemma clean_unfenced:
  assumes "\<not> prefix ''```'' (strip p)"
  shows "clean_json_text p = strip p"
proof -
  have "prefix ''```'' ''```json''" by simp
  then have "\<not> prefix ''```json'' (strip p)"
    using assms prefix_order.trans by blast
  with assms show ?thesis by (simp add: clean_json_text_def)
qed

text \<open>
  C7: for every JSON payload \<open>p\<close> (a text that \<open>json.loads\<close> parses),
  the response \<open>p\<close> wrapped in \<open>```json ... ```\<close> or in \<open>``` ... ```\<close>
  is parsed to the same result as the response \<open>p\<close> itself, and
  \<open>extract_cv_structure\<close> returns the same for both.
\<close>

theorem fenced_response_parses_like_unfenced:
  assumes lib: "json_text_facts (loads L)" and payload: "loads L p = Inr j"
  shows "json_loads L (clean_json_text (''```json'' @ p @ ''```'')) = json_loads L (clean_json_text p)
       \<and> json_loads L (clean_json_text (''```'' @ p @ ''```'')) = json_loads L (clean_json_text p)
       \<and> json_loads L (clean_json_text p) = lift_io (Inr j)
       \<and> extract_cv_structure L (\<lambda>k q t. Inr (''```json'' @ p @ ''```'')) cv_text n
           = extract_cv_structure L (\<lambda>k q t. Inr p) cv_text n
       \<and> extract_cv_structure L (\<lambda>k q t. Inr (''```'' @ p @ ''```'')) cv_text n
           = extract_cv_structure L (\<lambda>k q t. Inr p) cv_text n"
proof -
  from lib payload have s: "loads L (strip p) = Inr j" and h: "starts_like_json (strip p)"
    unfolding json_text_facts_def by blast+
  note hd = json_payload_head [OF h]
  have u: "clean_json_text p = strip p" by (rule clean_unfenced [OF hd(2)])
  have a: "json_loads L (clean_json_text (''```json'' @ p @ ''```'')) = json_loads L (clean_json_text p)"
    by (simp only: clean_fenced_json u) (simp add: json_loads_def s payload)
  have b: "json_loads L (clean_json_text (''```'' @ p @ ''```'')) = json_loads L (clean_json_text p)"
    by (simp only: clean_fenced_plain [OF hd(1)] u) (simp add: json_loads_def s payload)
  have c: "json_loads L (clean_json_text p) = lift_io (Inr j)"
    by (simp add: u json_loads_def s)
  have d: "extract_cv_structure L (\<lambda>k q t. Inr (''```json'' @ p @ ''```'')) cv_text n
           = extract_cv_structure L (\<lambda>k q t. Inr p) cv_text n"
    unfolding extract_cv_structure_def try_except_def bind_io_def generate_content_async_def
    by (simp add: a del: append.simps)
  have e: "extract_cv_structure L (\<lambda>k q t. Inr (''```'' @ p @ ''```'')) cv_text n
           = extract_cv_structure L (\<lambda>k q t. Inr p) cv_text n"
    unfolding extract_cv_structure_def try_except_def bind_io_def generate_content_async_def
    by (simp add: b del: append.simps)
  from a b c d e show ?thesis by blast
qed

lemma example_lib_json_text_facts: "json_text_facts (loads example_lib)"
  by (auto simp: json_text_facts_def example_lib_def strip_def is_space_def
      starts_like_json_def json_start_def split: if_splits)

theorem fenced_response_parses_like_unfenced_witness:
  "json_text_facts (loads example_lib) \<and> loads example_lib ''{}'' = Inr (JObj [])
   \<and> json_loads example_lib (clean_json_text ''```json{}```'') = json_loads example_lib (clean_json_text ''{}'')
   \<and> json_loads example_lib (clean_json_text ''```{}```'') = json_loads example_lib (clean_json_text ''{}'')
   \<and> json_loads example_lib (clean_json_text ''{}'') = lift_io (Inr (JObj []))
   \<and> extract_cv_structure example_lib (\<lambda>k q t. Inr ''```json{}```'') ''cv'' 0
       = extract_cv_structure example_lib (\<lambda>k q t. Inr ''{}'') ''cv'' 0
   \<and> extract_cv_structure example_lib (\<lambda>k q t. Inr ''```{}```'') ''cv'' 0
       = extract_cv_structure example_lib (\<lambda>k q t. Inr ''{}'') ''cv'' 0"
proof -
  have p: "loads example_lib ''{}'' = Inr (JObj [])" by (simp add: example_lib_def)
  from fenced_response_parses_like_unfenced [OF example_lib_json_text_facts p, of "''cv''" 0]
    example_lib_json_text_facts p
  show ?thesis by simp
qed

section \<open>Project evaluation: fallback\<close>

text \<open>
  When \<open>json.loads\<close> raises \<open>JSONDecodeError\<close> on the initial response,
  or on the refinement response after an initial response that parsed,
  \<open>evaluate_project_report\<close> returns the default: score 5.0, the generic
  feedback, and every sub-score 3.
\<close>

lemma json_decode_error_gives_project_default:
  assumes "generate_content_async svc (ProjectInitialPrompt rubric text) 0.2 n = (Inr r1, n1)"
    and "loads L (clean_json_text r1) = Inl JSONDecodeError
         \<or> (\<exists>d r2 n2. loads L (clean_json_text r1) = Inr d
               \<and> generate_content_async svc (ProjectRefinePrompt d (take 1000 text)) 0.1 n1 = (Inr r2, n2)
               \<and> loads L (clean_json_text r2) = Inl JSONDecodeError)"
  shows "fst (evaluate_project_report L svc text rubric n) =
           Inr (JFloat 5.0, JStr ''Unable to evaluate project properly'',
                \<lparr>correctness = 3, code_quality = 3, resilience = 3,
                 documentation = 3, creativity = 3, overall_score = 3\<rparr>)"
  using assms
  by (auto simp: evaluate_project_report_def try_except_def bind_io_def json_loads_def
        lift_io_def return_io_def is_JSONDecodeError_or_KeyError_def project_fallback_def
        default_project_evaluation_def)

lemma clean_prose: "clean_json_text ''I cannot help with that'' = ''I cannot help with that''"
  by (simp add: clean_json_text_def strip_def is_space_def)

lemma json_decode_error_gives_project_default_example:
  "generate_content_async prose_service (ProjectInitialPrompt ''rubric'' ''report'') 0.2 0
     = (Inr ''I cannot help with that'', 1)
   \<and> loads example_lib (clean_json_text ''I cannot help with that'') = Inl JSONDecodeError
   \<and> fst (evaluate_project_report example_lib prose_service ''report'' ''rubric'' 0) =
           Inr (JFloat 5.0, JStr ''Unable to evaluate project properly'',
                \<lparr>correctness = 3, code_quality = 3, resilience = 3,
                 documentation = 3, creativity = 3, overall_score = 3\<rparr>)"
proof -
  have g: "generate_content_async prose_service (ProjectInitialPrompt ''rubric'' ''report'') 0.2 0
     = (Inr ''I cannot help with that'', 1)"
    by (simp add: generate_content_async_def prose_service_def)
  have l: "loads example_lib (clean_json_text ''I cannot help with that'') = Inl JSONDecodeError"
    by (simp only: clean_prose) (simp add: example_lib_def)
  from json_decode_error_gives_project_default [OF g, of example_lib] g l show ?thesis by blast
qed

lemma strip_unchanged:
  assumes "s \<noteq> []" and "\<not> is_space (hd s)" and "\<not> is_space (last s)"
  shows "strip s = s"
proof -
  have "dropWhile is_space s = s"
    using assms(2) by (simp add: dropWhile_eq_self_iff)
  moreover have "dropWhile is_space (rev s) = rev s"
    using assms(1,3) by (simp add: dropWhile_eq_self_iff hd_rev)
  ultimately show ?thesis by (simp add: strip_def)
qed

lemma prefix_head:
  assumes "prefix (a # as) s"
  shows "hd s = a"
  using assms by (cases s) auto

lemma clean_deep_text: "clean_json_text deep_text = deep_text"
proof -
  have b: "\<not> is_space CHR ''[''" by (simp add: is_space_def)
  have h: "hd deep_text = CHR ''[''" by (simp add: deep_text_def)
  have "strip deep_text = deep_text"
    by (rule strip_unchanged) (simp_all add: deep_text_def b)
  moreover have "\<not> prefix ''```'' deep_text"
    using prefix_head [of "CHR ''`''" "''``''" deep_text] h by auto
  moreover have "\<not> prefix ''```json'' deep_text"
    using prefix_head [of "CHR ''`''" "''``json''" deep_text] h by auto
  ultimately show ?thesis by (simp add: clean_json_text_def)
qed

lemma clean_empty_object: "clean_json_text ''{}'' = ''{}''"
  by (simp add: clean_json_text_def strip_def is_space_def)

lemma deep_lib_loads:
  "loads deep_lib deep_text = Inl RecursionError"
  "loads deep_lib ''{}'' = Inr (JObj [])"
proof -
  show "loads deep_lib deep_text = Inl RecursionError" by (simp add: deep_lib_def)
  have "length deep_text = 1500" by (simp add: deep_text_def)
  moreover have "length ''{}'' = 2" by simp
  ultimately have "length ''{}'' \<noteq> length deep_text" by simp
  then have "''{}'' \<noteq> deep_text" by (rule contrapos_nn) (rule arg_cong)
  then show "loads deep_lib ''{}'' = Inr (JObj [])" by (simp add: deep_lib_def)
qed

text \<open>
  C5 fails on the code.  A response that fails to parse because it is
  nested too deeply (1500 opening brackets) makes \<open>json.loads\<close> raise
  \<open>RecursionError\<close>.  The handler of \<open>evaluate_project_report\<close> catches
  \<open>JSONDecodeError\<close> and \<open>KeyError\<close> only, so for such an initial
  response, or such a refinement response after an initial response that
  parsed, the call raises instead of returning the default.
\<close>

theorem unparsable_project_response_raises:
  assumes "generate_content_async svc (ProjectInitialPrompt rubric text) 0.2 n = (Inr r1, n1)"
    and "loads L (clean_json_text r1) = Inl RecursionError
         \<or> (\<exists>d r2 n2. loads L (clean_json_text r1) = Inr d
               \<and> generate_content_async svc (ProjectRefinePrompt d (take 1000 text)) 0.1 n1 = (Inr r2, n2)
               \<and> loads L (clean_json_text r2) = Inl RecursionError)"
  shows "fst (evaluate_project_report L svc text rubric n) = Inl RecursionError"
  using assms
  by (auto simp: evaluate_project_report_def try_except_def bind_io_def json_loads_def
        lift_io_def is_JSONDecodeError_or_KeyError_def)

theorem unparsable_project_response_raises_witness:
  "generate_content_async deep_on_refinement_service (ProjectInitialPrompt ''rubric'' ''report'') 0.2 0
     = (Inr ''{}'', 1)
   \<and> loads deep_lib (clean_json_text ''{}'') = Inr (JObj [])
   \<and> generate_content_async deep_on_refinement_service
        (ProjectRefinePrompt (JObj []) (take 1000 ''report'')) 0.1 1 = (Inr deep_text, 2)
   \<and> loads deep_lib (clean_json_text deep_text) = Inl RecursionError
   \<and> fst (evaluate_project_report deep_lib deep_on_refinement_service ''report'' ''rubric'' 0)
       = Inl RecursionError"
proof -
  have g1: "generate_content_async deep_on_refinement_service
       (ProjectInitialPrompt ''rubric'' ''report'') 0.2 0 = (Inr ''{}'', 1)"
    by (simp add: generate_content_async_def deep_on_refinement_service_def)
  have l1: "loads deep_lib (clean_json_text ''{}'') = Inr (JObj [])"
    by (simp only: clean_empty_object deep_lib_loads)
  have g2: "generate_content_async deep_on_refinement_service
        (ProjectRefinePrompt (JObj []) (take 1000 ''report'')) 0.1 1 = (Inr deep_text, 2)"
    by (simp add: generate_content_async_def deep_on_refinement_service_def)
  have l2: "loads deep_lib (clean_json_text deep_text) = Inl RecursionError"
    by (simp only: clean_deep_text deep_lib_loads)
  have h: "loads deep_lib (clean_json_text ''{}'') = Inl RecursionError
         \<or> (\<exists>d r2 n2. loads deep_lib (clean_json_text ''{}'') = Inr d
               \<and> generate_content_async deep_on_refinement_service
                     (ProjectRefinePrompt d (take 1000 ''report'')) 0.1 1 = (Inr r2, n2)
               \<and> loads deep_lib (clean_json_text r2) = Inl RecursionError)"
    using l1 g2 l2 by blast
  from unparsable_project_response_raises [OF g1 h] g1 l1 g2 l2
  show ?thesis by (intro conjI)
qed

section \<open>Context store: retrieval\<close>

lemma is_str_iff: "is_str v \<longleftrightarrow> (\<exists>s. v = Some (PStr s))"
  by (auto simp: is_str_def split: option.splits pyval.splits)

lemma wf_doc_fields:
  assumes "wf_doc d"
  obtains c t g where "map_of d ''content'' = Some (PStr c)"
    and "map_of d ''type'' = Some (PStr t)" and "map_of d ''category'' = Some (PStr g)"
  using assms unfolding wf_doc_def is_str_iff by blast

text \<open>Every store built by \<open>add_document\<close> from the empty one is well formed.\<close>

lemma dict_set_all:
  assumes "list_all P kvs" and "P (k, v)"
  shows "list_all P (dict_set kvs k v)"
  using assms by (induction kvs k v rule: dict_set.induct) auto

lemma add_document_wf:
  assumes "wf_documents docs"
  shows "wf_documents (add_document docs c i t g)"
  using assms unfolding wf_documents_def add_document_def
  by (intro dict_set_all) (simp_all add: wf_doc_def is_str_def)

lemma populate_initial_data_wf:
  assumes "wf_documents docs"
  shows "wf_documents (populate_initial_data docs a b c)"
  using assms unfolding wf_documents_def populate_initial_data_def
  by (intro dict_set_all) (simp_all add: wf_doc_def is_str_def)

lemma visit_wf:
  assumes "wf_doc d"
  shows "visit_document (split (lower q)) ct d =
           Inr (if matches_filter ct d \<and> 0 < relevance q (content_of d)
                then Some (as_result q d) else None)"
proof -
  from assms obtain c t g where f: "map_of d ''content'' = Some (PStr c)"
    "map_of d ''type'' = Some (PStr t)" "map_of d ''category'' = Some (PStr g)"
    by (rule wf_doc_fields)
  show ?thesis
  proof (cases ct)
    case None
    then show ?thesis
      by (simp add: visit_document_def dict_get_def f matches_filter_def relevance_def
          content_of_def field_of_def as_result_def Let_def)
  next
    case (Some u)
    then show ?thesis
      by (simp add: visit_document_def dict_get_def f matches_filter_def relevance_def
          content_of_def field_of_def as_result_def Let_def)
  qed
qed

lemma retrieve_loop_wf:
  assumes "wf_documents docs"
  shows "retrieve_loop (split (lower q)) ct docs acc = Inr (acc @ map (as_result q) (relevant q ct docs))"
  using assms
proof (induction docs arbitrary: acc)
  case Nil
  then show ?case by (simp add: relevant_def)
next
  case (Cons x docs)
  obtain i d where x: "x = (i, d)" by (cases x)
  from Cons.prems x have wd: "wf_doc d" and wr: "wf_documents docs"
    by (simp_all add: wf_documents_def)
  show ?case
    by (simp add: x visit_wf [OF wd] Cons.IH [OF wr] relevant_def)
qed

lemma sort_by_score_desc_sorted:
  "sorted_wrt (\<lambda>a b. score b \<le> score a) (sort_by_score_desc ds)"
proof -
  have "sorted (map (\<lambda>d. - int (score d)) (sort_by_score_desc ds))"
    unfolding sort_by_score_desc_def by (rule sorted_sort_key)
  then have "sorted_wrt (\<lambda>a b. - int (score a) \<le> - int (score b)) (sort_by_score_desc ds)"
    by (simp add: sorted_map)
  then show ?thesis by (rule sorted_wrt_mono_rel [rotated]) simp
qed

lemma sort_by_score_desc_stable:
  "filter (\<lambda>r. score r = k) (sort_by_score_desc ds) = filter (\<lambda>r. score r = k) ds"
proof -
  have "filter (\<lambda>r. - int (score r) = - int k) (sort_key (\<lambda>d. - int (score d)) ds)
      = filter (\<lambda>r. - int (score r) = - int k) ds"
    by (rule sort_key_stable)
  then show ?thesis by (simp add: sort_by_score_desc_def)
qed

lemma retrieve_context_wf:
  assumes "wf_documents docs"
  shows "retrieve_context docs q ct n =
           Inr (slice_to n (sort_by_score_desc (map (as_result q) (relevant q ct docs))))"
  by (simp add: retrieve_context_def retrieve_body_def retrieve_loop_wf [OF assms])

lemma relevant_scores:
  assumes "r \<in> set (map (as_result q) (relevant q ct docs))"
  shows "0 < score r" and "\<exists>w \<in> set (split (lower q)). sublist w (lower (content r))"
proof -
  from assms obtain d where d: "r = as_result q d" "0 < relevance q (content_of d)"
    by (auto simp: relevant_def)
  then show "0 < score r" by (simp add: as_result_def)
  from d have "filter (\<lambda>w. sublist w (lower (content r))) (split (lower q)) \<noteq> []"
    by (simp add: as_result_def relevance_def)
  then show "\<exists>w \<in> set (split (lower q)). sublist w (lower (content r))"
    by (simp add: filter_empty_conv)
qed

lemma relevant_types:
  assumes "r \<in> set (map (as_result q) (relevant q (Some t) docs))" and "t \<noteq> []"
  shows "metadata_type r = PStr t"
  using assms by (auto simp: relevant_def matches_filter_def as_result_def)

text \<open>
  C6, as stated, fails for the empty filter string: \<open>if context_type and ...\<close>
  treats it like an absent filter.  With the empty string as filter and
  the query \<open>rubric\<close> the two rubric documents are returned, whose type
  \<open>scoring_rubric\<close> is not the filter.
\<close>

theorem retrieve_empty_filter_counterexample:
  "returned (retrieve_context example_docs ''rubric'' (Some []) 3) =
     [\<lparr>content = ''CV rubric: skills'', metadata_type = PStr ''scoring_rubric'',
       metadata_category = PStr ''cv_evaluation'', score = 1\<rparr>,
      \<lparr>content = ''Project rubric: code quality'', metadata_type = PStr ''scoring_rubric'',
       metadata_category = PStr ''project_evaluation'', score = 1\<rparr>]
   \<and> \<not> list_all (type_equals_filter (Some []))
         (returned (retrieve_context example_docs ''rubric'' (Some []) 3))"
  by (simp add: returned_def retrieve_context_def retrieve_body_def example_docs_def add_document_def
      visit_document_def dict_get_def split_def lower_def lower_char_def is_space_def
      sort_by_score_desc_def slice_to_def sublist_code prefix_code Let_def type_equals_filter_def)

text \<open>
  C6, amended: for a store of well-formed documents, every query, every
  optional type filter, where an absent or empty filter matches every type,
  and every limit \<open>n\<close> (a count, passed as the integer \<open>n\<close>),
  \<open>retrieve_context\<close> returns the first \<open>n\<close> entries of the ranking of the
  documents that match the filter and have relevance greater than 0.  The
  ranking holds exactly these documents, is ordered by descending relevance,
  and keeps documents of equal relevance in insertion order.  At most \<open>n\<close>
  documents are returned, each containing at least one query term and, under
  a non-empty filter, each of the filter's type; in particular for the query
  \<open>project evaluation rubric code quality\<close>, filter \<open>scoring_rubric\<close> and
  limit 2.
\<close>

theorem retrieve_context_ranked:
  assumes "wf_documents docs"
  shows "retrieve_context docs q ct (int n) =
           Inr (take n (sort_by_score_desc (map (as_result q) (relevant q ct docs))))
       \<and> mset (sort_by_score_desc (map (as_result q) (relevant q ct docs)))
           = mset (map (as_result q) (relevant q ct docs))
       \<and> sorted_wrt (\<lambda>a b. score b \<le> score a)
           (sort_by_score_desc (map (as_result q) (relevant q ct docs)))
       \<and> (\<forall>k. filter (\<lambda>r. score r = k) (sort_by_score_desc (map (as_result q) (relevant q ct docs)))
               = filter (\<lambda>r. score r = k) (map (as_result q) (relevant q ct docs)))
       \<and> sorted_wrt (\<lambda>a b. score b \<le> score a) (returned (retrieve_context docs q ct (int n)))
       \<and> length (returned (retrieve_context docs q ct (int n))) \<le> n
       \<and> (\<forall>r \<in> set (returned (retrieve_context docs q ct (int n))).
             0 < score r \<and> (\<exists>w \<in> set (split (lower q)). sublist w (lower (content r))))
       \<and> (\<forall>t. ct = Some t \<and> t \<noteq> [] \<longrightarrow>
             (\<forall>r \<in> set (returned (retrieve_context docs q ct (int n))). metadata_type r = PStr t))
       \<and> length (returned (retrieve_context docs ''project evaluation rubric code quality''
                    (Some ''scoring_rubric'') 2)) \<le> 2
       \<and> (\<forall>r \<in> set (returned (retrieve_context docs ''project evaluation rubric code quality''
                    (Some ''scoring_rubric'') 2)).
             metadata_type r = PStr ''scoring_rubric'' \<and>
             (\<exists>w \<in> set (split (lower ''project evaluation rubric code quality'')).
                sublist w (lower (content r))))"
proof -
  let ?cands = "map (as_result q) (relevant q ct docs)"
  let ?F = "sort_by_score_desc ?cands"
  have r: "retrieve_context docs q ct (int n) = Inr (take n ?F)"
    using assms by (simp add: retrieve_context_wf slice_to_def)
  have m: "mset ?F = mset ?cands" by (simp add: sort_by_score_desc_def)
  have s: "sorted_wrt (\<lambda>a b. score b \<le> score a) ?F" by (rule sort_by_score_desc_sorted)
  have st: "\<forall>k. filter (\<lambda>r. score r = k) ?F = filter (\<lambda>r. score r = k) ?cands"
    by (simp add: sort_by_score_desc_stable)
  have ret: "returned (retrieve_context docs q ct (int n)) = take n ?F"
    by (simp add: r returned_def)
  have s': "sorted_wrt (\<lambda>a b. score b \<le> score a) (returned (retrieve_context docs q ct (int n)))"
    unfolding ret using s by (rule sorted_wrt_take)
  have l: "length (returned (retrieve_context docs q ct (int n))) \<le> n"
    unfolding ret by simp
  have sub: "set (take k (sort_by_score_desc (map (as_result q') (relevant q' ct' docs))))
               \<subseteq> set (map (as_result q') (relevant q' ct' docs))" for k q' ct'
    using set_take_subset [of k "sort_by_score_desc (map (as_result q') (relevant q' ct' docs))"]
    by (simp add: sort_by_score_desc_def)
  have c: "\<forall>r \<in> set (returned (retrieve_context docs q ct (int n))).
             0 < score r \<and> (\<exists>w \<in> set (split (lower q)). sublist w (lower (content r)))"
    unfolding ret using sub [of n q ct] relevant_scores [of _ q ct docs] by blast
  have ty: "\<forall>t. ct = Some t \<and> t \<noteq> [] \<longrightarrow>
             (\<forall>r \<in> set (returned (retrieve_context docs q ct (int n))). metadata_type r = PStr t)"
    unfolding ret using sub [of n q ct] relevant_types [of _ q _ docs] by blast
  let ?q2 = "''project evaluation rubric code quality''"
  have ret2: "returned (retrieve_context docs ?q2 (Some ''scoring_rubric'') 2)
                = take 2 (sort_by_score_desc (map (as_result ?q2)
                     (relevant ?q2 (Some ''scoring_rubric'') docs)))"
    using assms by (simp add: retrieve_context_wf slice_to_def returned_def)
  have l2: "length (returned (retrieve_context docs ?q2 (Some ''scoring_rubric'') 2)) \<le> 2"
    unfolding ret2 by simp
  have ne: "''scoring_rubric'' \<noteq> []" by simp
  have c2: "\<forall>r \<in> set (returned (retrieve_context docs ?q2 (Some ''scoring_rubric'') 2)).
             metadata_type r = PStr ''scoring_rubric'' \<and>
             (\<exists>w \<in> set (split (lower ?q2)). sublist w (lower (content r)))"
    unfolding ret2
    using sub [of 2 ?q2 "Some ''scoring_rubric''"]
      relevant_scores(2) [of _ ?q2 "Some ''scoring_rubric''" docs]
      relevant_types [of _ ?q2 "''scoring_rubric''" docs, OF _ ne] by blast
  from r m s st s' l c ty l2 c2 show ?thesis by blast
qed

lemma example_docs_wf: "wf_documents example_docs"
  unfolding example_docs_def
  by (intro add_document_wf) (simp add: wf_documents_def)

theorem retrieve_context_ranked_witness:
  "wf_documents example_docs
   \<and> retrieve_context example_docs ''project evaluation rubric code quality'' (Some ''scoring_rubric'') (int 2) =
       Inr (take 2 (sort_by_score_desc
              (map (as_result ''project evaluation rubric code quality'')
                 (relevant ''project evaluation rubric code quality'' (Some ''scoring_rubric'') example_docs))))
   \<and> length (returned (retrieve_context example_docs ''project evaluation rubric code quality''
                (Some ''scoring_rubric'') (int 2))) \<le> 2"
proof -
  note w = retrieve_context_ranked [OF example_docs_wf,
      of "''project evaluation rubric code quality''" "Some ''scoring_rubric''" 2]
  from w have a: "retrieve_context example_docs ''project evaluation rubric code quality''
        (Some ''scoring_rubric'') (int 2) =
       Inr (take 2 (sort_by_score_desc
              (map (as_result ''project evaluation rubric code quality'')
                 (relevant ''project evaluation rubric code quality'' (Some ''scoring_rubric'') example_docs))))"
    by (rule conjunct1)
  from w have b: "length (returned (retrieve_context example_docs
        ''project evaluation rubric code quality'' (Some ''scoring_rubric'') (int 2))) \<le> 2"
    by (elim conjE)
  from example_docs_wf a b show ?thesis by (intro conjI)
qed

text \<open>
  C10: \<open>retrieve_context\<close> never raises: it always returns a list, and
  whenever the computation inside its \<open>try\<close> block raises, it returns the
  empty list.
\<close>

theorem retrieve_context_never_raises:
  "(\<exists>ds. retrieve_context docs q ct n = Inr ds)
   \<and> (\<forall>e. retrieve_body docs q ct n = Inl e \<longrightarrow> retrieve_context docs q ct n = Inr [])"
  by (simp add: retrieve_context_def split: sum.splits)

theorem retrieve_context_never_raises_witness:
  "retrieve_body broken_docs ''rubric'' None 3 = Inl (KeyError ''content'')
   \<and> retrieve_context broken_docs ''rubric'' None 3 = Inr []"
proof -
  have b: "retrieve_body broken_docs ''rubric'' None 3 = Inl (KeyError ''content'')"
    by (simp add: retrieve_body_def broken_docs_def visit_document_def dict_get_def)
  from retrieve_context_never_raises [of broken_docs "''rubric''" None 3] b
  show ?thesis by blast
qed

section \<open>Task lifecycle\<close>

lemma select_task_in_set:
  assumes "select_task db tid = Some t"
  shows "t \<in> set db" and "task_id t = tid"
  using assms by (auto simp: select_task_def find_Some_iff)

lemma select_update_task:
  assumes "select_task db tid = Some t" and "\<And>x. task_id (f x) = task_id x"
  shows "select_task (update_task db tid f) tid = Some (f t)"
  using assms(1)
  by (induction db) (auto simp: select_task_def update_task_def assms(2) split: if_splits)

lemma update_task_ids:
  assumes "\<And>x. task_id (f x) = task_id x"
  shows "map task_id (update_task db tid f) = map task_id db"
  by (induction db) (simp_all add: update_task_def assms)

lemma unique_row:
  assumes "distinct (map task_id db)" and "select_task db tid = Some t"
    and "x \<in> set db" and "task_id x = tid"
  shows "x = t"
proof -
  from assms(1) have "inj_on task_id (set db)" by (simp add: distinct_map)
  moreover note select_task_in_set [OF assms(2)] assms(3,4)
  ultimately show ?thesis by (auto dest: inj_onD)
qed

lemma update_task_rows:
  assumes "distinct (map task_id db)" and "select_task db tid = Some t"
    and "x \<in> set (update_task db tid f)"
  shows "x = f t \<or> (x \<in> set db \<and> task_id x \<noteq> tid)"
proof -
  from assms(3) obtain y where y: "y \<in> set db" "x = (if task_id y = tid then f y else y)"
    by (auto simp: update_task_def)
  show ?thesis
  proof (cases "task_id y = tid")
    case True
    with unique_row [OF assms(1,2) y(1)] y(2) show ?thesis by simp
  next
    case False
    with y show ?thesis by simp
  qed
qed

lemma run_evaluation_cases:
  "(\<exists>r. evaluation_attempt L E docs tid (update_task db tid (\<lambda>t. t\<lparr>status := PROCESSING\<rparr>)) = Inr r
        \<and> run_evaluation L E docs tid db =
            ([update_task db tid (\<lambda>t. t\<lparr>status := PROCESSING\<rparr>),
              update_task (update_task db tid (\<lambda>t. t\<lparr>status := PROCESSING\<rparr>)) tid
                (\<lambda>t. t\<lparr>status := COMPLETED, result := Some r\<rparr>)], None))
   \<or> (\<exists>e. evaluation_attempt L E docs tid (update_task db tid (\<lambda>t. t\<lparr>status := PROCESSING\<rparr>)) = Inl e
        \<and> run_evaluation L E docs tid db =
            ([update_task db tid (\<lambda>t. t\<lparr>status := PROCESSING\<rparr>),
              update_task (update_task db tid (\<lambda>t. t\<lparr>status := PROCESSING\<rparr>)) tid
                (\<lambda>t. t\<lparr>status := FAILED, error_message := Some (py_str e)\<rparr>)], Some e))"
  by (cases "evaluation_attempt L E docs tid (update_task db tid (\<lambda>t. t\<lparr>status := PROCESSING\<rparr>))")
     (simp_all add: run_evaluation_def Let_def)

text \<open>
  C1: for a task as the routes create it (\<open>QUEUED\<close>, no result, no error)
  in a table keyed by task id whose rows satisfy the invariant, every run of
  \<open>run_evaluation\<close> commits exactly the states \<open>PROCESSING\<close> and then
  \<open>COMPLETED\<close> or \<open>FAILED\<close>; and in the table before the run and after
  each commit every row has its result set iff it is \<open>COMPLETED\<close>, its
  error set iff it is \<open>FAILED\<close>, and never both.
\<close>

theorem run_evaluation_lifecycle:
  assumes key: "distinct (map task_id db)"
    and task: "select_task db tid = Some t"
    and fresh: "freshly_queued t"
    and inv: "\<forall>x \<in> set db. task_invariant x"
  shows "(status_trace tid (db # fst (run_evaluation L E docs tid db))
            = [Some QUEUED, Some PROCESSING, Some COMPLETED]
          \<or> status_trace tid (db # fst (run_evaluation L E docs tid db))
            = [Some QUEUED, Some PROCESSING, Some FAILED])
       \<and> (\<forall>db' \<in> set (db # fst (run_evaluation L E docs tid db)). \<forall>x \<in> set db'.
             task_invariant x \<and> \<not> (result x \<noteq> None \<and> error_message x \<noteq> None))"
proof -
  let ?p = "\<lambda>t::EvaluationTask. t\<lparr>status := PROCESSING\<rparr>"
  let ?db1 = "update_task db tid ?p"
  have s1: "select_task ?db1 tid = Some (?p t)"
    by (rule select_update_task [OF task]) simp
  have key1: "distinct (map task_id ?db1)"
    using key by (simp add: update_task_ids)
  have both: "task_invariant x \<Longrightarrow> \<not> (result x \<noteq> None \<and> error_message x \<noteq> None)" for x
    by (auto simp: task_invariant_def)
  have inv1: "\<forall>x \<in> set ?db1. task_invariant x"
  proof
    fix x assume "x \<in> set ?db1"
    from update_task_rows [OF key task this] show "task_invariant x"
      using fresh inv by (auto simp: task_invariant_def freshly_queued_def)
  qed
  have q: "map_option status (select_task db tid) = Some QUEUED"
    using task fresh by (simp add: freshly_queued_def)
  have inv2: "\<forall>x \<in> set (update_task ?db1 tid f). task_invariant x"
    if "task_invariant (f (?p t))" for f
  proof
    fix x assume "x \<in> set (update_task ?db1 tid f)"
    from update_task_rows [OF key1 s1 this] show "task_invariant x"
      using that inv1 by auto
  qed
  from run_evaluation_cases [of L E docs tid db] show ?thesis
  proof (elim disjE exE conjE)
    fix r
    let ?c = "\<lambda>t::EvaluationTask. t\<lparr>status := COMPLETED, result := Some r\<rparr>"
    assume run: "run_evaluation L E docs tid db = ([?db1, update_task ?db1 tid ?c], None)"
    have s2: "select_task (update_task ?db1 tid ?c) tid = Some (?c (?p t))"
      by (rule select_update_task [OF s1]) simp
    have "task_invariant (?c (?p t))"
      using fresh by (simp add: task_invariant_def freshly_queued_def)
    from inv2 [of ?c, OF this] inv inv1 both
    have "\<forall>db' \<in> set (db # fst (run_evaluation L E docs tid db)). \<forall>x \<in> set db'.
             task_invariant x \<and> \<not> (result x \<noteq> None \<and> error_message x \<noteq> None)"
      by (simp add: run)
    moreover have "status_trace tid (db # fst (run_evaluation L E docs tid db))
            = [Some QUEUED, Some PROCESSING, Some COMPLETED]"
      by (simp add: run status_trace_def q s1 s2)
    ultimately show ?thesis by blast
  next
    fix e
    let ?c = "\<lambda>t::EvaluationTask. t\<lparr>status := FAILED, error_message := Some (py_str e)\<rparr>"
    assume run: "run_evaluation L E docs tid db = ([?db1, update_task ?db1 tid ?c], Some e)"
    have s2: "select_task (update_task ?db1 tid ?c) tid = Some (?c (?p t))"
      by (rule select_update_task [OF s1]) simp
    have "task_invariant (?c (?p t))"
      using fresh by (simp add: task_invariant_def freshly_queued_def)
    from inv2 [of ?c, OF this] inv inv1 both
    have "\<forall>db' \<in> set (db # fst (run_evaluation L E docs tid db)). \<forall>x \<in> set db'.
             task_invariant x \<and> \<not> (result x \<noteq> None \<and> error_message x \<noteq> None)"
      by (simp add: run)
    moreover have "status_trace tid (db # fst (run_evaluation L E docs tid db))
            = [Some QUEUED, Some PROCESSING, Some FAILED]"
      by (simp add: run status_trace_def q s1 s2)
    ultimately show ?thesis by blast
  qed
qed

lemma example_table_task:
  "select_task example_table ''t1''
     = Some (new_task ''t1'' 0 ''cv.txt'' ''report.txt'' ''Backend Developer position'')"
  by (simp add: example_table_def select_task_def new_task_def)

theorem run_evaluation_lifecycle_witness:
  "distinct (map task_id example_table)
   \<and> select_task example_table ''t1''
       = Some (new_task ''t1'' 0 ''cv.txt'' ''report.txt'' ''Backend Developer position'')
   \<and> freshly_queued (new_task ''t1'' 0 ''cv.txt'' ''report.txt'' ''Backend Developer position'')
   \<and> list_all task_invariant example_table
   \<and> (status_trace ''t1'' (example_table #
          fst (run_evaluation example_lib (example_env prose_service) example_docs ''t1'' example_table))
            = [Some QUEUED, Some PROCESSING, Some COMPLETED]
       \<or> status_trace ''t1'' (example_table #
          fst (run_evaluation example_lib (example_env prose_service) example_docs ''t1'' example_table))
            = [Some QUEUED, Some PROCESSING, Some FAILED])"
proof -
  have k: "distinct (map task_id example_table)" by (simp add: example_table_def)
  have f: "freshly_queued (new_task ''t1'' 0 ''cv.txt'' ''report.txt'' ''Backend Developer position'')"
    by (simp add: freshly_queued_def new_task_def)
  have i: "\<forall>x \<in> set example_table. task_invariant x"
    by (simp add: example_table_def new_task_def task_invariant_def)
  from run_evaluation_lifecycle [OF k example_table_task f i,
      of example_lib "example_env prose_service" example_docs]
  have "status_trace ''t1'' (example_table #
          fst (run_evaluation example_lib (example_env prose_service) example_docs ''t1'' example_table))
            = [Some QUEUED, Some PROCESSING, Some COMPLETED]
       \<or> status_trace ''t1'' (example_table #
          fst (run_evaluation example_lib (example_env prose_service) example_docs ''t1'' example_table))
            = [Some QUEUED, Some PROCESSING, Some FAILED]"
    by (rule conjunct1)
  moreover have "list_all task_invariant example_table"
    using i by (simp add: list_all_iff)
  ultimately show ?thesis using k example_table_task f by (intro conjI)
qed

section \<open>Malformed responses\<close>

lemma execute_pipeline_unfold:
  assumes "extract_text_from_file (file_readers E) (cv_file_path task) = Inr cv_text"
    and "extract_text_from_file (file_readers E) (project_report_path task) = Inr project_text"
  shows "execute_pipeline L E docs task =
           bind_io (extract_cv_structure L (generate_content E) cv_text)
             (steps_after_extraction L E docs task project_text)"
  by (simp add: execute_pipeline_def assms bind_io_def lift_io_def)

lemma evaluation_attempt_unfold:
  assumes "select_task db tid = Some task" and "\<not> random_failure E"
  shows "evaluation_attempt L E docs tid db = fst (execute_pipeline L E docs task 0)"
  by (simp add: evaluation_attempt_def assms simulate_processing_delay_def)

lemma mk_ExtractedCVData_missing_skills:
  assumes "map_of kvs ''skills'' = None"
  shows "mk_ExtractedCVData L (JObj kvs) = Inl ValidationError"
  by (simp add: mk_ExtractedCVData_def required_def assms)

lemma extract_cv_structure_missing_skills:
  assumes "generate_content_async svc (CVStructurePrompt cv_text) 0.1 n = (Inr response, n')"
    and "loads L (clean_json_text response) = Inr (JObj kvs)"
    and "map_of kvs ''skills'' = None"
  shows "extract_cv_structure L svc cv_text n = (Inl ValidationError, n')"
  by (simp add: extract_cv_structure_def try_except_def bind_io_def json_loads_def lift_io_def
      assms mk_ExtractedCVData_missing_skills is_JSONDecodeError_def)

lemma extract_cv_structure_not_json:
  assumes "generate_content_async svc (CVStructurePrompt cv_text) 0.1 n = (Inr response, n')"
    and "loads L (clean_json_text response) = Inl JSONDecodeError"
  shows "extract_cv_structure L svc cv_text n = (Inr empty_profile, n')"
  by (simp add: extract_cv_structure_def try_except_def bind_io_def json_loads_def lift_io_def
      assms is_JSONDecodeError_def return_io_def)

text \<open>
  The same gap in \<open>evaluate_cv_match\<close>: a response that parses to an object
  whose \<open>detailed_scores\<close> hold a sub-score outside \<open>[1, 5]\<close> raises
  \<open>ValidationError\<close>, which the handler for \<open>JSONDecodeError\<close> and
  \<open>KeyError\<close> lets through.
\<close>

lemma evaluate_cv_match_out_of_range:
  assumes "generate_content_async svc (CVMatchPrompt jd ctx cv_data) 0.1 n = (Inr response, n')"
    and "loads L (clean_json_text response) = Inr (JObj kvs)"
    and "map_of kvs ''detailed_scores'' = Some (JObj scores)"
    and "map_of scores ''technical_skills_match'' = Some (JInt 9)"
  shows "evaluate_cv_match L svc cv_data jd ctx n = (Inl ValidationError, n')"
proof -
  have "required scores ''technical_skills_match'' (float_between L 1 5) = None"
    by (simp add: required_def assms(4) float_between_def as_float_def)
  then have "mk_CVEvaluation L (JObj scores) = Inl ValidationError"
    by (simp add: mk_CVEvaluation_def)
  then show ?thesis
    unfolding evaluate_cv_match_def try_except_def bind_io_def assms(1)
    by (simp add: json_loads_def lift_io_def assms(2,3) getitem_def
        is_JSONDecodeError_or_KeyError_def)
qed

lemma run_evaluation_failed:
  assumes "select_task db tid = Some t"
    and "evaluation_attempt L E docs tid (update_task db tid (\<lambda>t. t\<lparr>status := PROCESSING\<rparr>)) = Inl e"
  shows "snd (run_evaluation L E docs tid db) = Some e"
    and "status_trace tid (fst (run_evaluation L E docs tid db)) = [Some PROCESSING, Some FAILED]"
    and "map_option error_message (select_task (last (fst (run_evaluation L E docs tid db))) tid)
           = Some (Some (py_str e))"
proof -
  let ?p = "\<lambda>t::EvaluationTask. t\<lparr>status := PROCESSING\<rparr>"
  let ?c = "\<lambda>t::EvaluationTask. t\<lparr>status := FAILED, error_message := Some (py_str e)\<rparr>"
  have s1: "select_task (update_task db tid ?p) tid = Some (?p t)"
    by (rule select_update_task [OF assms(1)]) simp
  have s2: "select_task (update_task (update_task db tid ?p) tid ?c) tid = Some (?c (?p t))"
    by (rule select_update_task [OF s1]) simp
  show "snd (run_evaluation L E docs tid db) = Some e"
    by (simp add: run_evaluation_def Let_def assms(2))
  show "status_trace tid (fst (run_evaluation L E docs tid db)) = [Some PROCESSING, Some FAILED]"
    by (simp add: run_evaluation_def Let_def assms(2) status_trace_def s1 s2)
  show "map_option error_message (select_task (last (fst (run_evaluation L E docs tid db))) tid)
           = Some (Some (py_str e))"
    by (simp add: run_evaluation_def Let_def assms(2) s2)
qed

lemma run_evaluation_completed:
  assumes "select_task db tid = Some t"
    and "evaluation_attempt L E docs tid (update_task db tid (\<lambda>t. t\<lparr>status := PROCESSING\<rparr>)) = Inr r"
  shows "snd (run_evaluation L E docs tid db) = None"
    and "status_trace tid (fst (run_evaluation L E docs tid db)) = [Some PROCESSING, Some COMPLETED]"
    and "map_option result (select_task (last (fst (run_evaluation L E docs tid db))) tid)
           = Some (Some r)"
proof -
  let ?p = "\<lambda>t::EvaluationTask. t\<lparr>status := PROCESSING\<rparr>"
  let ?c = "\<lambda>t::EvaluationTask. t\<lparr>status := COMPLETED, result := Some r\<rparr>"
  have s1: "select_task (update_task db tid ?p) tid = Some (?p t)"
    by (rule select_update_task [OF assms(1)]) simp
  have s2: "select_task (update_task (update_task db tid ?p) tid ?c) tid = Some (?c (?p t))"
    by (rule select_update_task [OF s1]) simp
  show "snd (run_evaluation L E docs tid db) = None"
    by (simp add: run_evaluation_def Let_def assms(2))
  show "status_trace tid (fst (run_evaluation L E docs tid db)) = [Some PROCESSING, Some COMPLETED]"
    by (simp add: run_evaluation_def Let_def assms(2) status_trace_def s1 s2)
  show "map_option result (select_task (last (fst (run_evaluation L E docs tid db))) tid)
           = Some (Some r)"
    by (simp add: run_evaluation_def Let_def assms(2) s2)
qed

text \<open>
  C3 fails on the code.  When the files are readable, no simulated failure
  fires and the first response of the service is valid JSON, an object
  without the key \<open>skills\<close> (for instance \<open>{}\<close>), then
  \<open>ExtractedCVData(**data)\<close> raises \<open>ValidationError\<close>, the handler of
  \<open>extract_cv_structure\<close> catches \<open>JSONDecodeError\<close> only, and the task
  ends in \<open>FAILED\<close>.
\<close>

theorem malformed_structure_fails_task:
  assumes "select_task db tid = Some t"
    and "\<not> random_failure E"
    and "extract_text_from_file (file_readers E) (cv_file_path t) = Inr cv_text"
    and "extract_text_from_file (file_readers E) (project_report_path t) = Inr project_text"
    and "generate_content E 0 (CVStructurePrompt cv_text) 0.1 = Inr response"
    and "loads L (clean_json_text response) = Inr (JObj kvs)"
    and "map_of kvs ''skills'' = None"
  shows "snd (run_evaluation L E docs tid db) = Some ValidationError
       \<and> status_trace tid (fst (run_evaluation L E docs tid db)) = [Some PROCESSING, Some FAILED]"
proof -
  let ?p = "\<lambda>t::EvaluationTask. t\<lparr>status := PROCESSING\<rparr>"
  have s1: "select_task (update_task db tid ?p) tid = Some (?p t)"
    by (rule select_update_task [OF assms(1)]) simp
  have g: "generate_content_async (generate_content E) (CVStructurePrompt cv_text) 0.1 0
             = (Inr response, Suc 0)"
    using assms(5) by (simp add: retry_first_success)
  have x: "extract_cv_structure L (generate_content E) cv_text 0 = (Inl ValidationError, Suc 0)"
    by (rule extract_cv_structure_missing_skills [OF g assms(6,7)])
  have "execute_pipeline L E docs (?p t) 0 = (Inl ValidationError, Suc 0)"
    using assms(3,4) by (simp add: execute_pipeline_unfold bind_io_def x)
  then have "evaluation_attempt L E docs tid (update_task db tid ?p) = Inl ValidationError"
    by (simp add: evaluation_attempt_unfold [OF s1 assms(2)])
  from run_evaluation_failed(1,2) [OF assms(1) this] show ?thesis by blast
qed

lemma example_readers_txt:
  "extract_text_from_file example_readers ''cv.txt'' = Inr ''Python and Docker, five years''"
  "extract_text_from_file example_readers ''report.txt'' = Inr ''Python and Docker, five years''"
  by (simp_all add: extract_text_from_file_def splitext_ext_def lower_def lower_char_def
      example_readers_def Let_def)

theorem malformed_structure_fails_task_witness:
  "select_task example_table ''t1''
     = Some (new_task ''t1'' 0 ''cv.txt'' ''report.txt'' ''Backend Developer position'')
   \<and> \<not> random_failure (example_env empty_object_service)
   \<and> generate_content (example_env empty_object_service) 0
        (CVStructurePrompt ''Python and Docker, five years'') 0.1 = Inr ''{}''
   \<and> loads example_lib (clean_json_text ''{}'') = Inr (JObj [])
   \<and> snd (run_evaluation example_lib (example_env empty_object_service) example_docs ''t1'' example_table)
       = Some ValidationError
   \<and> status_trace ''t1''
        (fst (run_evaluation example_lib (example_env empty_object_service) example_docs ''t1'' example_table))
       = [Some PROCESSING, Some FAILED]"
proof -
  have r: "\<not> random_failure (example_env empty_object_service)"
    by (simp add: example_env_def)
  have c: "extract_text_from_file (file_readers (example_env empty_object_service))
             (cv_file_path (new_task ''t1'' 0 ''cv.txt'' ''report.txt'' ''Backend Developer position''))
           = Inr ''Python and Docker, five years''"
    by (simp add: example_env_def new_task_def example_readers_txt)
  have p: "extract_text_from_file (file_readers (example_env empty_object_service))
             (project_report_path (new_task ''t1'' 0 ''cv.txt'' ''report.txt'' ''Backend Developer position''))
           = Inr ''Python and Docker, five years''"
    by (simp add: example_env_def new_task_def example_readers_txt)
  have g: "generate_content (example_env empty_object_service) 0
        (CVStructurePrompt ''Python and Docker, five years'') 0.1 = Inr ''{}''"
    by (simp add: example_env_def empty_object_service_def)
  have l: "loads example_lib (clean_json_text ''{}'') = Inr (JObj [])"
    by (simp add: example_lib_def clean_json_text_def strip_def is_space_def)
  have k: "map_of ([] :: (string \<times> json) list) ''skills'' = None" by simp
  from malformed_structure_fails_task [OF example_table_task r c p g l k, of example_docs]
    example_table_task r g l
  show ?thesis by (intro conjI) simp_all
qed

text \<open>
  C4 fails on the code.  When the files are readable, no simulated failure
  fires and the first response of the service is text that is not valid
  JSON because it is nested too deeply (1500 opening brackets),
  \<open>json.loads\<close> raises \<open>RecursionError\<close>; the handler of
  \<open>extract_cv_structure\<close> catches \<open>JSONDecodeError\<close> only, so the call
  raises instead of returning the empty profile, the remaining steps do not
  run, and the task ends in \<open>FAILED\<close>.
\<close>

theorem unparsable_extraction_fails_task:
  assumes "select_task db tid = Some t"
    and "\<not> random_failure E"
    and "extract_text_from_file (file_readers E) (cv_file_path t) = Inr cv_text"
    and "extract_text_from_file (file_readers E) (project_report_path t) = Inr project_text"
    and "generate_content E 0 (CVStructurePrompt cv_text) 0.1 = Inr response"
    and "loads L (clean_json_text response) = Inl RecursionError"
  shows "extract_cv_structure L (generate_content E) cv_text 0 = (Inl RecursionError, 1)
       \<and> snd (run_evaluation L E docs tid db) = Some RecursionError
       \<and> status_trace tid (fst (run_evaluation L E docs tid db)) = [Some PROCESSING, Some FAILED]"
proof -
  let ?p = "\<lambda>t::EvaluationTask. t\<lparr>status := PROCESSING\<rparr>"
  have s1: "select_task (update_task db tid ?p) tid = Some (?p t)"
    by (rule select_update_task [OF assms(1)]) simp
  have g: "generate_content_async (generate_content E) (CVStructurePrompt cv_text) 0.1 0
             = (Inr response, Suc 0)"
    using assms(5) by (simp add: retry_first_success)
  have x: "extract_cv_structure L (generate_content E) cv_text 0 = (Inl RecursionError, Suc 0)"
    unfolding extract_cv_structure_def try_except_def bind_io_def g
    by (simp add: json_loads_def lift_io_def assms(6) is_JSONDecodeError_def)
  have "execute_pipeline L E docs (?p t) 0 = (Inl RecursionError, Suc 0)"
    using assms(3,4) by (simp add: execute_pipeline_unfold bind_io_def x)
  then have "evaluation_attempt L E docs tid (update_task db tid ?p) = Inl RecursionError"
    by (simp add: evaluation_attempt_unfold [OF s1 assms(2)])
  from run_evaluation_failed(1,2) [OF assms(1) this] x show ?thesis by simp
qed

theorem unparsable_extraction_fails_task_witness:
  "select_task example_table ''t1''
     = Some (new_task ''t1'' 0 ''cv.txt'' ''report.txt'' ''Backend Developer position'')
   \<and> \<not> random_failure (example_env deep_nesting_service)
   \<and> generate_content (example_env deep_nesting_service) 0
        (CVStructurePrompt ''Python and Docker, five years'') 0.1 = Inr deep_text
   \<and> loads deep_lib (clean_json_text deep_text) = Inl RecursionError
   \<and> snd (run_evaluation deep_lib (example_env deep_nesting_service) example_docs ''t1'' example_table)
       = Some RecursionError
   \<and> status_trace ''t1''
        (fst (run_evaluation deep_lib (example_env deep_nesting_service) example_docs ''t1'' example_table))
       = [Some PROCESSING, Some FAILED]"
proof -
  let ?t = "new_task ''t1'' 0 ''cv.txt'' ''report.txt'' ''Backend Developer position''"
  let ?E = "example_env deep_nesting_service"
  have r: "\<not> random_failure ?E"
    by (simp add: example_env_def)
  have c: "extract_text_from_file (file_readers ?E) (cv_file_path ?t)
           = Inr ''Python and Docker, five years''"
    by (simp add: example_env_def new_task_def example_readers_txt)
  have p: "extract_text_from_file (file_readers ?E) (project_report_path ?t)
           = Inr ''Python and Docker, five years''"
    by (simp add: example_env_def new_task_def example_readers_txt)
  have g: "generate_content ?E 0 (CVStructurePrompt ''Python and Docker, five years'') 0.1
             = Inr deep_text"
    by (simp add: example_env_def deep_nesting_service_def)
  have l: "loads deep_lib (clean_json_text deep_text) = Inl RecursionError"
    by (simp only: clean_deep_text deep_lib_loads)
  note w = unparsable_extraction_fails_task [OF example_table_task r c p g l, of example_docs]
  from w have a: "snd (run_evaluation deep_lib ?E example_docs ''t1'' example_table)
       = Some RecursionError"
    by (elim conjE)
  from w have b: "status_trace ''t1'' (fst (run_evaluation deep_lib ?E example_docs ''t1'' example_table))
       = [Some PROCESSING, Some FAILED]"
    by (elim conjE)
  from example_table_task r g l a b show ?thesis by (intro conjI)
qed

text \<open>
  When \<open>json.loads\<close> raises \<open>JSONDecodeError\<close> on the extraction response,
  \<open>extract_cv_structure\<close> returns the empty profile, \<open>_execute_pipeline\<close>
  goes on with the remaining steps from that profile, and when these return
  a result the task is \<open>COMPLETED\<close> with it.
\<close>

lemma json_decode_error_extraction_falls_back:
  assumes "select_task db tid = Some t"
    and "\<not> random_failure E"
    and "extract_text_from_file (file_readers E) (cv_file_path t) = Inr cv_text"
    and "extract_text_from_file (file_readers E) (project_report_path t) = Inr project_text"
    and "generate_content_async (generate_content E) (CVStructurePrompt cv_text) 0.1 0 = (Inr response, n)"
    and "loads L (clean_json_text response) = Inl JSONDecodeError"
    and "steps_after_extraction L E docs (t\<lparr>status := PROCESSING\<rparr>) project_text
           \<lparr>skills = [], experiences = [], projects = [], education = [],
            years_of_experience = None, achievements = []\<rparr> n = (Inr r, m)"
  shows "extract_cv_structure L (generate_content E) cv_text 0 =
           (Inr \<lparr>skills = [], experiences = [], projects = [], education = [],
                 years_of_experience = None, achievements = []\<rparr>, n)
       \<and> execute_pipeline L E docs (t\<lparr>status := PROCESSING\<rparr>) 0 =
           steps_after_extraction L E docs (t\<lparr>status := PROCESSING\<rparr>) project_text
             \<lparr>skills = [], experiences = [], projects = [], education = [],
              years_of_experience = None, achievements = []\<rparr> n
       \<and> snd (run_evaluation L E docs tid db) = None
       \<and> status_trace tid (fst (run_evaluation L E docs tid db)) = [Some PROCESSING, Some COMPLETED]
       \<and> map_option result (select_task (last (fst (run_evaluation L E docs tid db))) tid)
           = Some (Some r)"
proof -
  let ?p = "\<lambda>t::EvaluationTask. t\<lparr>status := PROCESSING\<rparr>"
  let ?e = "\<lparr>skills = [], experiences = [], projects = [], education = [],
              years_of_experience = None, achievements = []\<rparr>"
  have s1: "select_task (update_task db tid ?p) tid = Some (?p t)"
    by (rule select_update_task [OF assms(1)]) simp
  have x: "extract_cv_structure L (generate_content E) cv_text 0 = (Inr ?e, n)"
    using extract_cv_structure_not_json [OF assms(5,6)] by (simp add: empty_profile_def)
  have ex: "execute_pipeline L E docs (?p t) 0
              = steps_after_extraction L E docs (?p t) project_text ?e n"
    using assms(3,4) by (simp add: execute_pipeline_unfold bind_io_def x)
  then have "evaluation_attempt L E docs tid (update_task db tid ?p) = Inr r"
    by (simp add: evaluation_attempt_unfold [OF s1 assms(2)] assms(7))
  from run_evaluation_completed [OF assms(1) this] x ex show ?thesis by blast
qed

lemma prose_cv_match:
  "evaluate_cv_match example_lib prose_service cv_data jd ctx n =
     (Inr (JFloat 0.5, JStr ''Unable to evaluate CV properly'', default_cv_evaluation), Suc n)"
proof -
  have g: "generate_content_async prose_service (CVMatchPrompt jd ctx cv_data) 0.1 n
             = (Inr ''I cannot help with that'', Suc n)"
    by (simp add: generate_content_async_def prose_service_def)
  have l: "json_loads example_lib (clean_json_text ''I cannot help with that'') = lift_io (Inl JSONDecodeError)"
    by (simp only: clean_prose) (simp add: json_loads_def example_lib_def)
  show ?thesis
    unfolding evaluate_cv_match_def try_except_def bind_io_def g
    by (simp add: l lift_io_def return_io_def is_JSONDecodeError_or_KeyError_def)
qed

lemma prose_project_report:
  "evaluate_project_report example_lib prose_service text rubric n = (Inr project_fallback, Suc n)"
proof -
  have g: "generate_content_async prose_service (ProjectInitialPrompt rubric text) 0.2 n
             = (Inr ''I cannot help with that'', Suc n)"
    by (simp add: generate_content_async_def prose_service_def)
  have l: "json_loads example_lib (clean_json_text ''I cannot help with that'') = lift_io (Inl JSONDecodeError)"
    by (simp only: clean_prose) (simp add: json_loads_def example_lib_def)
  show ?thesis
    unfolding evaluate_project_report_def try_except_def bind_io_def g
    by (simp add: l lift_io_def return_io_def is_JSONDecodeError_or_KeyError_def)
qed

lemma prose_summary:
  "generate_overall_summary prose_service fb pfb (JFloat x) ps n = (Inr ''I cannot help with that'', Suc n)"
proof -
  have g: "generate_content_async prose_service (SummaryPrompt (JFloat x) fb ps pfb) 0.3 m
             = (Inr ''I cannot help with that'', Suc m)" for m
    by (simp add: generate_content_async_def prose_service_def)
  show ?thesis
    unfolding generate_overall_summary_def try_except_def bind_io_def g
    by (simp add: lift_io_def format_2f_def)
qed

lemma fallback_result_valid:
  assumes "0 \<le> x" and "x \<le> 1" and "1 \<le> y" and "y \<le> 10"
  shows "mk_EvaluationResult L (JFloat x) (JStr a) (JFloat y) (JStr b) s cv_ev pj_ev =
     Inr \<lparr>cv_match_rate = x, cv_feedback = a, project_score = y, project_feedback = b,
          overall_summary = s, cv_evaluation_details = Some cv_ev,
          project_evaluation_details = Some pj_ev\<rparr>"
  using assms by (simp add: mk_EvaluationResult_def float_between_def as_float_def as_str_def)

lemma prose_steps_after_extraction:
  "steps_after_extraction example_lib (example_env prose_service) docs task text cv_data n =
     (Inr \<lparr>cv_match_rate = 0.5, cv_feedback = ''Unable to evaluate CV properly'',
           project_score = 5.0, project_feedback = ''Unable to evaluate project properly'',
           overall_summary = ''I cannot help with that'',
           cv_evaluation_details = Some default_cv_evaluation,
           project_evaluation_details = Some default_project_evaluation\<rparr>, n + 3)"
proof -
  have r: "\<exists>ds. retrieve_context docs q ct k = Inr ds" for q ct k
    by (simp add: retrieve_context_def split: sum.splits)
  obtain ds1 where d1: "retrieve_context docs
       (''backend developer requirements '' @ join '' '' (take 5 (skills cv_data)))
       (Some ''job_description'') 2 = Inr ds1"
    using r by blast
  obtain ds2 where d2: "retrieve_context docs ''CV evaluation scoring technical skills experience''
       (Some ''scoring_rubric'') 1 = Inr ds2"
    using r by blast
  obtain ds3 where d3: "retrieve_context docs
       ''project evaluation rubric code quality correctness resilience documentation''
       (Some ''scoring_rubric'') 2 = Inr ds3"
    using r by blast
  have e: "generate_content (example_env prose_service) = prose_service"
    by (simp add: example_env_def)
  show ?thesis
    unfolding steps_after_extraction_def e d1 d2 d3
    by (simp add: bind_io_def lift_io_def prose_cv_match prose_project_report project_fallback_def
        prose_summary fallback_result_valid)
qed

lemma json_decode_error_extraction_falls_back_example:
  "select_task example_table ''t1''
     = Some (new_task ''t1'' 0 ''cv.txt'' ''report.txt'' ''Backend Developer position'')
   \<and> \<not> random_failure (example_env prose_service)
   \<and> generate_content_async (generate_content (example_env prose_service))
        (CVStructurePrompt ''Python and Docker, five years'') 0.1 0
       = (Inr ''I cannot help with that'', 1)
   \<and> loads example_lib (clean_json_text ''I cannot help with that'') = Inl JSONDecodeError
   \<and> extract_cv_structure example_lib (generate_content (example_env prose_service))
        ''Python and Docker, five years'' 0 =
           (Inr \<lparr>skills = [], experiences = [], projects = [], education = [],
                 years_of_experience = None, achievements = []\<rparr>, 1)
   \<and> snd (run_evaluation example_lib (example_env prose_service) example_docs ''t1'' example_table) = None
   \<and> status_trace ''t1''
        (fst (run_evaluation example_lib (example_env prose_service) example_docs ''t1'' example_table))
       = [Some PROCESSING, Some COMPLETED]"
proof -
  let ?t = "new_task ''t1'' 0 ''cv.txt'' ''report.txt'' ''Backend Developer position''"
  let ?E = "example_env prose_service"
  have r: "\<not> random_failure ?E"
    by (simp add: example_env_def)
  have c: "extract_text_from_file (file_readers ?E) (cv_file_path ?t)
           = Inr ''Python and Docker, five years''"
    by (simp add: example_env_def new_task_def example_readers_txt)
  have p: "extract_text_from_file (file_readers ?E) (project_report_path ?t)
           = Inr ''Python and Docker, five years''"
    by (simp add: example_env_def new_task_def example_readers_txt)
  have g: "generate_content_async (generate_content ?E)
        (CVStructurePrompt ''Python and Docker, five years'') 0.1 0
       = (Inr ''I cannot help with that'', 1)"
    by (simp add: example_env_def generate_content_async_def prose_service_def)
  have l: "loads example_lib (clean_json_text ''I cannot help with that'') = Inl JSONDecodeError"
    by (simp only: clean_prose) (simp add: example_lib_def)
  note s = prose_steps_after_extraction [of example_docs "?t\<lparr>status := PROCESSING\<rparr>"
      "''Python and Docker, five years''"
      "\<lparr>skills = [], experiences = [], projects = [], education = [],
        years_of_experience = None, achievements = []\<rparr>" 1]
  note w = json_decode_error_extraction_falls_back [OF example_table_task r c p g l s]
  from w have a: "extract_cv_structure example_lib (generate_content ?E)
        ''Python and Docker, five years'' 0 =
           (Inr \<lparr>skills = [], experiences = [], projects = [], education = [],
                 years_of_experience = None, achievements = []\<rparr>, 1)"
    by (rule conjunct1)
  from w have b: "snd (run_evaluation example_lib ?E example_docs ''t1'' example_table) = None"
    by (elim conjE)
  from w have d: "status_trace ''t1'' (fst (run_evaluation example_lib ?E example_docs ''t1'' example_table))
       = [Some PROCESSING, Some COMPLETED]"
    by (elim conjE)
  from example_table_task r g l a b d show ?thesis by (intro conjI)
qed

section \<open>Submission and deletion\<close>

lemma unsupported_format_raises:
  assumes "\<not> validate_file_format p"
  shows "extract_text_from_file R p
           = Inl (ValueError (''Unsupported file format: '' @ lower (splitext_ext p)))"
  using assms by (simp add: validate_file_format_def extract_text_from_file_def Let_def)

lemma select_task_append_new:
  assumes "select_task db tid = None"
  shows "select_task (db @ [new_task tid now cv pr jd]) tid = Some (new_task tid now cv pr jd)"
  using assms by (induction db) (auto simp: select_task_def new_task_def split: if_splits)

text \<open>
  The sibling route \<open>POST /evaluate-direct\<close> rejects a file of unsupported
  format, and a file that is too large, before it creates a task.
\<close>

lemma evaluate_files_direct_rejects:
  assumes "\<not> validate_file_format (filename cv_file) \<or> \<not> validate_file_format (filename project_report)
           \<or> size_of_content cv_file > MAX_FILE_SIZE \<or> size_of_content project_report > MAX_FILE_SIZE"
  shows "\<exists>detail. evaluate_files_direct fs db session tid now cv_file project_report jd
           = (Inl (HTTPException 400 detail), db, fs, None)"
  using assms by (auto simp: evaluate_files_direct_def)

text \<open>
  C8 fails on the code.  \<open>POST /evaluate\<close> checks only that the two paths
  exist.  For an existing file of unsupported format it creates the task in
  \<open>QUEUED\<close>; the run of that task then raises
  \<open>ValueError('Unsupported file format: ...')\<close> in
  \<open>extract_text_from_file\<close> and records the task as \<open>FAILED\<close>.
\<close>

theorem evaluate_route_accepts_unsupported_format:
  assumes "cv \<in> fs" and "pr \<in> fs"
    and "\<not> validate_file_format cv"
    and "select_task db tid = None"
    and "\<not> random_failure E"
  shows "create_evaluation_task fs db tid now cv pr jd
           = (Inr (tid, QUEUED), db @ [new_task tid now cv pr jd], Some tid)
       \<and> status_trace tid (fst (run_evaluation L E docs tid (db @ [new_task tid now cv pr jd])))
           = [Some PROCESSING, Some FAILED]
       \<and> snd (run_evaluation L E docs tid (db @ [new_task tid now cv pr jd]))
           = Some (ValueError (''Unsupported file format: '' @ lower (splitext_ext cv)))"
proof -
  let ?t = "new_task tid now cv pr jd"
  let ?db = "db @ [?t]"
  let ?p = "\<lambda>t::EvaluationTask. t\<lparr>status := PROCESSING\<rparr>"
  let ?e = "ValueError (''Unsupported file format: '' @ lower (splitext_ext cv))"
  have c: "create_evaluation_task fs db tid now cv pr jd = (Inr (tid, QUEUED), ?db, Some tid)"
    using assms(1,2) by (simp add: create_evaluation_task_def)
  have s: "select_task ?db tid = Some ?t"
    by (rule select_task_append_new [OF assms(4)])
  have s1: "select_task (update_task ?db tid ?p) tid = Some (?p ?t)"
    by (rule select_update_task [OF s]) simp
  have "cv_file_path (?p ?t) = cv" by (simp add: new_task_def)
  then have "execute_pipeline L E docs (?p ?t) 0 = (Inl ?e, 0)"
    by (simp add: execute_pipeline_def bind_io_def lift_io_def
        unsupported_format_raises [OF assms(3)])
  then have "evaluation_attempt L E docs tid (update_task ?db tid ?p) = Inl ?e"
    by (simp add: evaluation_attempt_unfold [OF s1 assms(5)])
  from run_evaluation_failed(1,2) [OF s this] c show ?thesis by blast
qed

theorem evaluate_route_accepts_unsupported_format_witness:
  "''notes.md'' \<in> {''notes.md'', ''report.txt''} \<and> ''report.txt'' \<in> {''notes.md'', ''report.txt''}
   \<and> \<not> validate_file_format ''notes.md''
   \<and> select_task [] ''t1'' = None
   \<and> \<not> random_failure (example_env prose_service)
   \<and> create_evaluation_task {''notes.md'', ''report.txt''} [] ''t1'' 0 ''notes.md'' ''report.txt''
        ''Backend Developer position''
       = (Inr (''t1'', QUEUED),
          [] @ [new_task ''t1'' 0 ''notes.md'' ''report.txt'' ''Backend Developer position''], Some ''t1'')
   \<and> status_trace ''t1'' (fst (run_evaluation example_lib (example_env prose_service) example_docs ''t1''
        ([] @ [new_task ''t1'' 0 ''notes.md'' ''report.txt'' ''Backend Developer position''])))
       = [Some PROCESSING, Some FAILED]"
proof -
  have a: "''notes.md'' \<in> {''notes.md'', ''report.txt''}" by simp
  have b: "''report.txt'' \<in> {''notes.md'', ''report.txt''}" by simp
  have v: "\<not> validate_file_format ''notes.md''"
    by (simp add: validate_file_format_def splitext_ext_def lower_def lower_char_def Let_def)
  have s: "select_task [] ''t1'' = None" by (simp add: select_task_def)
  have r: "\<not> random_failure (example_env prose_service)" by (simp add: example_env_def)
  note w = evaluate_route_accepts_unsupported_format [OF a b v s r,
      of 0 "''Backend Developer position''" example_lib example_docs]
  from w have c: "create_evaluation_task {''notes.md'', ''report.txt''} [] ''t1'' 0 ''notes.md'' ''report.txt''
        ''Backend Developer position''
       = (Inr (''t1'', QUEUED),
          [] @ [new_task ''t1'' 0 ''notes.md'' ''report.txt'' ''Backend Developer position''], Some ''t1'')"
    by (rule conjunct1)
  from w have d: "status_trace ''t1'' (fst (run_evaluation example_lib (example_env prose_service)
        example_docs ''t1''
        ([] @ [new_task ''t1'' 0 ''notes.md'' ''report.txt'' ''Backend Developer position''])))
       = [Some PROCESSING, Some FAILED]"
    by (elim conjE)
  from a b v s r c d show ?thesis by (intro conjI)
qed

lemma list_tasks_subset: "set (list_tasks db limit offset) \<subseteq> task_id ` set db"
proof -
  let ?o = "sort_key (\<lambda>t. - int (created_at t)) db"
  have "set (drop (nat offset) ?o) \<subseteq> set db"
    using set_drop_subset [of "nat offset" ?o] by simp
  moreover have "set (take (nat limit) (drop (nat offset) ?o)) \<subseteq> set (drop (nat offset) ?o)"
    by (rule set_take_subset)
  ultimately show ?thesis
    by (auto simp: list_tasks_def Let_def)
qed

lemma delete_files_removes:
  assumes "\<not> remove_raises (cv_file_path task)" and "\<not> remove_raises (project_report_path task)"
  shows "delete_files remove_raises task fs = fs - {cv_file_path task, project_report_path task}"
  using assms by (auto simp: delete_files_def os_remove_def)

lemma delete_files_subset: "delete_files remove_raises task fs \<subseteq> fs"
  by (auto simp: delete_files_def os_remove_def split: sum.splits if_splits)

text \<open>
  C9: deleting an existing task answers with success, after which
  \<open>GET /result\<close> answers 404 for it and no page of \<open>GET /tasks\<close> lists
  it; this holds whether or not the files exist and whether or not their
  removal raises.  When no removal raises, neither input file exists
  afterwards.  No file is created and no other task is touched.
\<close>

theorem delete_task_removes_record_and_files:
  assumes "select_task db tid = Some task"
  shows "fst (delete_task remove_raises fs db tid) = Inr (''Task '' @ tid @ '' deleted successfully'')
       \<and> select_task (fst (snd (delete_task remove_raises fs db tid))) tid = None
       \<and> get_evaluation_result (fst (snd (delete_task remove_raises fs db tid))) tid
           = Inl (HTTPException 404 ''Task not found'')
       \<and> tid \<notin> set (list_tasks (fst (snd (delete_task remove_raises fs db tid))) limit offset)
       \<and> (\<not> remove_raises (cv_file_path task) \<and> \<not> remove_raises (project_report_path task) \<longrightarrow>
            cv_file_path task \<notin> snd (snd (delete_task remove_raises fs db tid))
            \<and> project_report_path task \<notin> snd (snd (delete_task remove_raises fs db tid)))
       \<and> snd (snd (delete_task remove_raises fs db tid)) \<subseteq> fs
       \<and> (\<forall>other. other \<noteq> tid \<longrightarrow>
            select_task (fst (snd (delete_task remove_raises fs db tid))) other = select_task db other)"
proof -
  let ?db' = "filter (\<lambda>t. task_id t \<noteq> tid) db"
  have d: "delete_task remove_raises fs db tid =
             (Inr (''Task '' @ tid @ '' deleted successfully''), ?db', delete_files remove_raises task fs)"
    by (simp add: delete_task_def assms)
  have n: "select_task ?db' tid = None"
    by (simp add: select_task_def find_None_iff)
  have g: "get_evaluation_result ?db' tid = Inl (HTTPException 404 ''Task not found'')"
    by (simp add: get_evaluation_result_def n)
  have l: "tid \<notin> set (list_tasks ?db' limit offset)"
    using list_tasks_subset [of ?db' limit offset] by auto
  have f: "\<not> remove_raises (cv_file_path task) \<and> \<not> remove_raises (project_report_path task) \<longrightarrow>
            cv_file_path task \<notin> delete_files remove_raises task fs
            \<and> project_report_path task \<notin> delete_files remove_raises task fs"
    by (simp add: delete_files_removes)
  have o: "\<forall>other. other \<noteq> tid \<longrightarrow> select_task ?db' other = select_task db other"
  proof (intro allI impI)
    fix other :: string assume "other \<noteq> tid"
    then show "select_task ?db' other = select_task db other"
      by (induction db) (auto simp: select_task_def)
  qed
  from n g l f o delete_files_subset [of remove_raises task fs]
  show ?thesis by (simp add: d)
qed

theorem delete_task_removes_record_and_files_witness:
  "select_task example_table ''t1''
     = Some (new_task ''t1'' 0 ''cv.txt'' ''report.txt'' ''Backend Developer position'')
   \<and> fst (delete_task (\<lambda>p. False) {''cv.txt''} example_table ''t1'')
       = Inr (''Task '' @ ''t1'' @ '' deleted successfully'')
   \<and> get_evaluation_result (fst (snd (delete_task (\<lambda>p. False) {''cv.txt''} example_table ''t1''))) ''t1''
       = Inl (HTTPException 404 ''Task not found'')
   \<and> ''cv.txt'' \<notin> snd (snd (delete_task (\<lambda>p. False) {''cv.txt''} example_table ''t1''))"
proof -
  note w = delete_task_removes_record_and_files [OF example_table_task,
      of "\<lambda>p. False" "{''cv.txt''}" 50 0]
  from w have a: "fst (delete_task (\<lambda>p. False) {''cv.txt''} example_table ''t1'')
       = Inr (''Task '' @ ''t1'' @ '' deleted successfully'')"
    by (rule conjunct1)
  from w have b: "get_evaluation_result
        (fst (snd (delete_task (\<lambda>p. False) {''cv.txt''} example_table ''t1''))) ''t1''
       = Inl (HTTPException 404 ''Task not found'')"
    by (elim conjE)
  from w have c: "''cv.txt'' \<notin> snd (snd (delete_task (\<lambda>p. False) {''cv.txt''} example_table ''t1''))"
    by (simp add: new_task_def)
  from example_table_task a b c show ?thesis by (intro conjI)
qed

end
